theory Spec2Isabelle
  imports Complex_Main
begin

section \<open>JavaScript values reaching the handlers\<close>

text \<open>
  Number values. A finite value is kept as its exact rational value: the rounding to
  binary64, the overflow of a huge literal to Infinity and the sign of zero are not
  modelled, and the handlers never compute with the numbers they receive.
\<close>

datatype jsnum = Fin rat | NaN | PosInf | NegInf

text \<open>
  What \<open>JSON.parse\<close> (body-parser) can put into \<open>req.body\<close>, and \<open>JUndefined\<close> for
  a property that is not there. An object is the list of its own properties in the order
  of the text; a later binding of a key replaces an earlier one.
\<close>

datatype jsval =
    JUndefined
  | JNull
  | JBool bool
  | JNum jsnum
  | JStr string
  | JArr "jsval list"
  | JObj "(string \<times> jsval) list"

text \<open>
  What the query-string parser can put into \<open>req.query.limit\<close>: a string, an array
  (a repeated parameter) or an object (a bracketed parameter).
\<close>

datatype qsval =
    QStr string
  | QArr "qsval list"
  | QObj "(string \<times> qsval) list"

datatype js_error = TypeError

definition get_prop :: "(string \<times> jsval) list \<Rightarrow> string \<Rightarrow> jsval" where
  "get_prop obj k = (case map_of (rev obj) k of None \<Rightarrow> JUndefined | Some v \<Rightarrow> v)"

subsection \<open>Characters and digits\<close>

definition is_digit :: "char \<Rightarrow> bool" where
  "is_digit c = (48 \<le> (of_char c :: int) \<and> (of_char c :: int) \<le> 57)"

text \<open>The value of a character as a digit of a radix up to 36; 36 for any other character.\<close>

definition digit_of :: "char \<Rightarrow> int" where
  "digit_of c =
     (let n = (of_char c :: int) in
      if 48 \<le> n \<and> n \<le> 57 then n - 48
      else if 97 \<le> n \<and> n \<le> 122 then n - 87
      else if 65 \<le> n \<and> n \<le> 90 then n - 55
      else 36)"

definition is_radix_digit :: "int \<Rightarrow> char \<Rightarrow> bool" where
  "is_radix_digit r c = (digit_of c < r)"

definition digits_value :: "int \<Rightarrow> string \<Rightarrow> int" where
  "digits_value r ds = foldl (\<lambda>a c. a * r + digit_of c) 0 ds"

text \<open>
  StrWhiteSpaceChar, as far as an 8-bit character reaches: TAB, LF, VT, FF, CR, SP, NBSP.
\<close>

definition is_ws :: "char \<Rightarrow> bool" where
  "is_ws c = ((of_char c :: int) \<in> {9, 10, 11, 12, 13, 32, 160})"

definition trim :: "string \<Rightarrow> string" where
  "trim s = rev (dropWhile is_ws (rev (dropWhile is_ws s)))"

definition digit_char :: "int \<Rightarrow> char" where
  "digit_char n = char_of (48 + n)"

text \<open>\<open>Number.prototype.toString\<close> on an integer: its decimal digits, after the sign.\<close>

function show_nat :: "int \<Rightarrow> string" where
  "show_nat n = (if n < 10 then [digit_char n] else show_nat (n div 10) @ [digit_char (n mod 10)])"
  by pat_completeness auto
termination
  by (relation "measure nat") auto

declare show_nat.simps [simp del]

definition show_int :: "int \<Rightarrow> string" where
  "show_int i = (if i < 0 then CHR ''-'' # show_nat (- i) else show_nat i)"

subsection \<open>\<open>parseInt(string, radix)\<close>\<close>

text \<open>
  The results of \<open>parseInt\<close>: NaN, an integer that binary64 holds, or an infinity.
\<close>

datatype parsed_int = PNaN | PInt int | PInfinity | PNegInfinity

text \<open>The number of binary digits of a positive integer; 0 for the others.\<close>

function bit_length :: "int \<Rightarrow> nat" where
  "bit_length n = (if n \<le> 0 then 0 else Suc (bit_length (n div 2)))"
  by pat_completeness auto
termination
  by (relation "measure nat") auto

declare bit_length.simps [simp del]

text \<open>
  The Number value of an integer: the integer itself up to 53 binary digits, beyond that
  the nearest integer with 53 significant binary digits, the even one of two that are
  equally near, and an infinity from \<open>2^1024\<close> on.
\<close>

definition to_binary64 :: "int \<Rightarrow> parsed_int" where
  "to_binary64 i =
     (let a = \<bar>i\<bar>;
          e = bit_length a - 53;
          q = a div 2 ^ e;
          r = a mod 2 ^ e;
          up = (2 ^ e < 2 * r \<or> (2 * r = 2 ^ e \<and> odd q));
          m = (if up then q + 1 else q) * 2 ^ e
      in if 2 ^ 1024 \<le> m then (if i < 0 then PNegInfinity else PInfinity)
         else PInt (if i < 0 then - m else m))"

text \<open>
  \<open>parseInt\<close> on a string: leading white space is skipped, a sign is read, with radix
  16 or no radix (written 0) a prefix \<open>0x\<close> selects radix 16, and the longest prefix of
  digits of the radix is read; with no digit the result is NaN, otherwise the Number
  value of the integer read, with its sign.
\<close>

definition parseInt :: "string \<Rightarrow> int \<Rightarrow> parsed_int" where
  "parseInt inputString radix =
     (let s = dropWhile is_ws inputString;
          neg = (s \<noteq> [] \<and> hd s = CHR ''-'');
          s1 = (if s \<noteq> [] \<and> (hd s = CHR ''+'' \<or> hd s = CHR ''-'') then tl s else s)
      in if radix \<noteq> 0 \<and> (radix < 2 \<or> 36 < radix) then PNaN
         else
           let hex = ((radix = 0 \<or> radix = 16) \<and> (take 2 s1 = ''0x'' \<or> take 2 s1 = ''0X''));
               r = (if hex then 16 else if radix = 0 then 10 else radix);
               s2 = (if hex then drop 2 s1 else s1);
               z = takeWhile (is_radix_digit r) s2
           in if z = [] then PNaN
              else to_binary64 ((if neg then - 1 else 1) * digits_value r z))"

subsection \<open>\<open>Number(value)\<close>\<close>

definition pow10 :: "int \<Rightarrow> rat" where
  "pow10 e = (if 0 \<le> e then 10 ^ nat e else 1 / 10 ^ nat (- e))"

definition negate :: "jsnum \<Rightarrow> jsnum" where
  "negate x = (case x of Fin q \<Rightarrow> Fin (- q) | NaN \<Rightarrow> NaN | PosInf \<Rightarrow> NegInf | NegInf \<Rightarrow> PosInf)"

text \<open>ExponentPart, which has to reach the end of the literal; no exponent is \<open>e0\<close>.\<close>

definition exponent_part :: "string \<Rightarrow> int option" where
  "exponent_part s =
     (case s of
        [] \<Rightarrow> Some 0
      | c # r \<Rightarrow>
          if c = CHR ''e'' \<or> c = CHR ''E'' then
            (let neg = (r \<noteq> [] \<and> hd r = CHR ''-'');
                 ds = (if r \<noteq> [] \<and> (hd r = CHR ''+'' \<or> hd r = CHR ''-'') then tl r else r)
             in if ds \<noteq> [] \<and> list_all is_digit ds
                then Some ((if neg then - 1 else 1) * digits_value 10 ds)
                else None)
          else None)"

text \<open>
  StrUnsignedDecimalLiteral: \<open>Infinity\<close>, or digits with an optional fraction and
  exponent, with a digit before or after the dot.
\<close>

definition unsigned_decimal :: "string \<Rightarrow> jsnum" where
  "unsigned_decimal s =
     (if s = ''Infinity'' then PosInf
      else
        let ip = takeWhile is_digit s;
            r1 = dropWhile is_digit s;
            dot = (r1 \<noteq> [] \<and> hd r1 = CHR ''.'');
            fp = (if dot then takeWhile is_digit (tl r1) else []);
            r2 = (if dot then dropWhile is_digit (tl r1) else r1)
        in if ip = [] \<and> fp = [] then NaN
           else
             (case exponent_part r2 of
                None \<Rightarrow> NaN
              | Some e \<Rightarrow>
                  Fin ((of_int (digits_value 10 ip)
                        + of_int (digits_value 10 fp) / 10 ^ length fp) * pow10 e)))"

text \<open>NonDecimalIntegerLiteral: \<open>0x\<close>, \<open>0o\<close> or \<open>0b\<close> and at least one digit, no sign.\<close>

definition non_decimal :: "string \<Rightarrow> int option" where
  "non_decimal s =
     (let p = take 2 s; ds = drop 2 s;
          r = (if p = ''0x'' \<or> p = ''0X'' then 16
               else if p = ''0o'' \<or> p = ''0O'' then 8
               else if p = ''0b'' \<or> p = ''0B'' then 2 else 0)
      in if r \<noteq> 0 \<and> ds \<noteq> [] \<and> list_all (is_radix_digit r) ds
         then Some (digits_value r ds) else None)"

text \<open>
  StringToNumber: the string without the white space around it is empty (zero), a numeric
  literal (its value), or anything else (NaN).
\<close>

definition StringToNumber :: "string \<Rightarrow> jsnum" where
  "StringToNumber str =
     (let t = trim str in
      if t = [] then Fin 0
      else
        (case non_decimal t of
           Some n \<Rightarrow> Fin (of_int n)
         | None \<Rightarrow>
             if hd t = CHR ''+'' then unsigned_decimal (tl t)
             else if hd t = CHR ''-'' then negate (unsigned_decimal (tl t))
             else unsigned_decimal t))"

text \<open>
  Whether ToString of a parsed JSON value throws. A parsed object has no callable
  property, so an own property \<open>toString\<close> hides \<open>Object.prototype.toString\<close> and
  OrdinaryToPrimitive ends in a TypeError; an array joins the strings of its elements.
\<close>

fun to_primitive_throws :: "jsval \<Rightarrow> bool" where
  "to_primitive_throws (JObj kvs) = (''toString'' \<in> fst ` set kvs)"
| "to_primitive_throws (JArr xs) = (\<exists>x \<in> set xs. to_primitive_throws x)"
| "to_primitive_throws _ = False"

text \<open>
  \<open>Number(value)\<close>. A number is itself and a string is read by StringToNumber. An object
  becomes \<open>[object Object]\<close>, which is NaN. An array becomes the join of its elements with
  commas, where \<open>null\<close> and \<open>undefined\<close> are empty: no element gives the empty string
  (zero), one element gives that element's string (a number's string reads back as the
  number), and with two or more the comma makes it NaN.
\<close>

fun Number_js :: "jsval \<Rightarrow> js_error + jsnum" where
  "Number_js JUndefined = Inr NaN"
| "Number_js JNull = Inr (Fin 0)"
| "Number_js (JBool b) = Inr (Fin (if b then 1 else 0))"
| "Number_js (JNum n) = Inr n"
| "Number_js (JStr s) = Inr (StringToNumber s)"
| "Number_js (JObj kvs) = (if to_primitive_throws (JObj kvs) then Inl TypeError else Inr NaN)"
| "Number_js (JArr []) = Inr (Fin 0)"
| "Number_js (JArr [x]) =
     (case x of
        JUndefined \<Rightarrow> Inr (Fin 0)
      | JNull \<Rightarrow> Inr (Fin 0)
      | JBool b \<Rightarrow> Inr NaN
      | JNum n \<Rightarrow> Inr n
      | JStr s \<Rightarrow> Inr (StringToNumber s)
      | JArr ys \<Rightarrow> Number_js (JArr ys)
      | JObj kvs \<Rightarrow> Number_js (JObj kvs))"
| "Number_js (JArr (x # y # zs)) =
     (if to_primitive_throws (JArr (x # y # zs)) then Inl TypeError else Inr NaN)"

section \<open>The timestamp: \<open>getISTDateTime\<close>\<close>

text \<open>
  \<open>new Date()\<close> reads the clock: the instant is a parameter, in milliseconds since the
  epoch. Asia/Kolkata has been five and a half hours ahead of UTC without interruption
  since October 1945; the model takes that offset for every instant.
\<close>

definition ist_offset_ms :: int where
  "ist_offset_ms = 19800000"

text \<open>
  The year (counted from 1 March) and the day in it (0 is 1 March) of a day number
  counted from 0000-03-01: whole cycles of 400 years, then at most three centuries, then
  cycles of four years, then at most three years.
\<close>

definition march_year_day :: "int \<Rightarrow> int \<times> int" where
  "march_year_day z =
     (let n400 = z div 146097;
          r = z mod 146097;
          n100 = min (r div 36524) 3;
          r2 = r - n100 * 36524;
          n4 = r2 div 1461;
          r3 = r2 mod 1461;
          n1 = min (r3 div 365) 3
      in (400 * n400 + 100 * n100 + 4 * n4 + n1, r3 - n1 * 365))"

text \<open>The month (1 to 12) and the day of the month of a day counted from 1 March.\<close>

definition month_day :: "int \<Rightarrow> int \<times> int" where
  "month_day doy =
     (let mp = (5 * doy + 2) div 153
      in (if mp < 10 then mp + 3 else mp - 9, doy - (153 * mp + 2) div 5 + 1))"

text \<open>Year, month and day of a day number (days since 1970-01-01), proleptic Gregorian.\<close>

definition civil_from_days :: "int \<Rightarrow> int \<times> int \<times> int" where
  "civil_from_days days =
     (let yd = march_year_day (days + 719468);
          md = month_day (snd yd)
      in (if fst md \<le> 2 then fst yd + 1 else fst yd, fst md, snd md))"

text \<open>The day number of a date, the inverse of \<open>civil_from_days\<close>.\<close>

definition days_from_civil :: "int \<Rightarrow> int \<Rightarrow> int \<Rightarrow> int" where
  "days_from_civil y m d =
     (let y' = (if m \<le> 2 then y - 1 else y);
          mp = (if m \<le> 2 then m + 9 else m - 3)
      in 365 * y' + y' div 4 - y' div 100 + y' div 400 + (153 * mp + 2) div 5 + d - 1 - 719468)"

record date_time_fields =
  dt_year :: int
  dt_month :: int
  dt_day :: int
  dt_hour :: int
  dt_minute :: int
  dt_second :: int

definition ist_fields :: "int \<Rightarrow> date_time_fields" where
  "ist_fields t =
     (let local = t + ist_offset_ms;
          ms = local mod 86400000;
          ymd = civil_from_days (local div 86400000)
      in \<lparr> dt_year = fst ymd, dt_month = fst (snd ymd), dt_day = snd (snd ymd),
           dt_hour = ms div 3600000,
           dt_minute = (ms div 60000) mod 60,
           dt_second = (ms div 1000) mod 60 \<rparr>)"

text \<open>
  \<open>hour12: false\<close> resolves to the hour cycle \<open>h23\<close> (midnight is hour 00) or, in
  engines that follow the older ECMA-402 text for a locale whose default is \<open>h12\<close>, to
  \<open>h24\<close> (midnight is hour 24). The engine's choice is a parameter.
\<close>

datatype hour_cycle = H23 | H24

definition pad2 :: "int \<Rightarrow> string" where
  "pad2 n = (if n < 10 then CHR ''0'' # show_nat n else show_nat n)"

definition hour_field :: "hour_cycle \<Rightarrow> int \<Rightarrow> int" where
  "hour_field hc h = (if hc = H24 \<and> h = 0 then 24 else h)"

text \<open>
  \<open>toLocaleString('en-US', {timeZone: 'Asia/Kolkata', year: 'numeric', month: '2-digit',
  day: '2-digit', hour: '2-digit', minute: '2-digit', second: '2-digit', hour12: false})\<close>:
  the en-US date \<open>MM/DD/YYYY\<close>, a comma and a space, and the time \<open>HH:MM:SS\<close>. The
  year is the year of the era, without padding.
\<close>

definition toLocaleString_enUS :: "hour_cycle \<Rightarrow> int \<Rightarrow> string" where
  "toLocaleString_enUS hc t =
     (let f = ist_fields t;
          y = (if 1 \<le> dt_year f then dt_year f else 1 - dt_year f)
      in pad2 (dt_month f) @ ''/'' @ pad2 (dt_day f) @ ''/'' @ show_nat y @ '', ''
         @ pad2 (hour_field hc (dt_hour f)) @ '':'' @ pad2 (dt_minute f) @ '':''
         @ pad2 (dt_second f))"

text \<open>
  The pattern \<open>(\d+)\/(\d+)\/(\d+)\<close> at the start of a string: each group takes every
  digit it can (giving one back never helps, the next character would be a digit). The
  result is the three groups and what follows the match.
\<close>

definition match_date_at :: "string \<Rightarrow> (string \<times> string \<times> string \<times> string) option" where
  "match_date_at s =
     (let g1 = takeWhile is_digit s; r1 = dropWhile is_digit s in
      if g1 = [] \<or> r1 = [] \<or> hd r1 \<noteq> CHR ''/'' then None
      else
        let g2 = takeWhile is_digit (tl r1); r2 = dropWhile is_digit (tl r1) in
        if g2 = [] \<or> r2 = [] \<or> hd r2 \<noteq> CHR ''/'' then None
        else
          let g3 = takeWhile is_digit (tl r2); r3 = dropWhile is_digit (tl r2) in
          if g3 = [] then None else Some (g1, g2, g3, r3))"

text \<open>
  \<open>.replace(/(\d+)\/(\d+)\/(\d+)/, '$3-$1-$2')\<close>: the leftmost match is replaced, once;
  a string with no match is returned as it is.
\<close>

fun replace_date :: "string \<Rightarrow> string" where
  "replace_date [] = []"
| "replace_date (c # cs) =
     (case match_date_at (c # cs) of
        Some (g1, g2, g3, rest) \<Rightarrow> g3 @ ''-'' @ g1 @ ''-'' @ g2 @ rest
      | None \<Rightarrow> c # replace_date cs)"

definition getISTDateTime :: "hour_cycle \<Rightarrow> int \<Rightarrow> string" where
  "getISTDateTime hc t = replace_date (toLocaleString_enUS hc t)"

text \<open>
  A string matches a pattern when it has the pattern's length, a digit wherever the
  pattern has \<open>d\<close>, and the pattern's own character everywhere else.
\<close>

definition matches_format :: "string \<Rightarrow> string \<Rightarrow> bool" where
  "matches_format pat s =
     list_all2 (\<lambda>p c. if p = CHR ''d'' then is_digit c else c = p) pat s"

text \<open>
  The format of the specification, \<open>YYYY-MM-DD HH:MM:SS\<close>: date, one space, time, and
  nothing else.
\<close>

definition spec_timestamp_format :: "string \<Rightarrow> bool" where
  "spec_timestamp_format s = matches_format ''dddd-dd-dd dd:dd:dd'' s"

section \<open>Readings and the two stores\<close>

record reading =
  waterLevel :: jsnum
  temperatureCelsius :: jsnum
  temperatureFahrenheit :: jsnum
  timestamp :: string
  id_js :: string

text \<open>A document of the collection \<open>SensorData\<close>; \<open>doc_id\<close> is \<open>_id.toString()\<close>.\<close>

record sensor_doc =
  doc_waterLevel :: jsnum
  doc_temperatureCelsius :: jsnum
  doc_temperatureFahrenheit :: jsnum
  istTimestamp :: string
  doc_id :: string

text \<open>
  The state between two requests: \<open>localDataStore.sensorData\<close>, and the collection in
  the database, newest document first (the order of \<open>sort({createdAt: -1})\<close>).
\<close>

record server_state =
  sensorData :: "reading list"
  collection :: "sensor_doc list"

text \<open>
  What a request finds around it: the state of the connection when \<open>isDbConnected\<close>
  looks at it, whether the call to the database made by this request raises, the id the
  database gives a new document, how many documents it puts into a single batch, the two
  readings of the clock (\<open>new Date()\<close> for the timestamp, \<open>Date.now()\<close> for the id)
  and the engine's hour cycle.
\<close>

record request_env =
  readyState :: int
  db_raises :: bool
  db_new_id :: string
  db_batch_size :: nat
  clock_date :: int
  clock_now :: int
  clock_hour_cycle :: hour_cycle

definition isDbConnected :: "request_env \<Rightarrow> bool" where
  "isDbConnected env = (readyState env = 1)"

datatype db_error = OperationError | ValidationError

text \<open>
  \<open>SensorData.create\<close>. The schema casts the three numbers (NaN fails the cast) and
  requires the timestamp (an empty string fails); a document that passes is stored as it
  was given, with the id of the database, unless the operation raises.
\<close>

definition SensorData_create ::
    "request_env \<Rightarrow> jsnum \<Rightarrow> jsnum \<Rightarrow> jsnum \<Rightarrow> string \<Rightarrow> sensor_doc list
     \<Rightarrow> db_error + (sensor_doc \<times> sensor_doc list)" where
  "SensorData_create env wl tc tf ts coll =
     (if wl = NaN \<or> tc = NaN \<or> tf = NaN \<or> ts = [] then Inl ValidationError
      else if db_raises env then Inl OperationError
      else
        let doc = \<lparr> doc_waterLevel = wl, doc_temperatureCelsius = tc,
                     doc_temperatureFahrenheit = tf, istTimestamp = ts,
                     doc_id = db_new_id env \<rparr>
        in Inr (doc, doc # coll))"

text \<open>
  \<open>SensorData.find().sort({createdAt: -1}).limit(limit).lean()\<close>. The database takes
  the limit as an integer of 64 bits and refuses any other number. A limit of zero is no
  limit; a negative limit asks for a single batch of at most that many documents.
\<close>

definition SensorData_find ::
    "request_env \<Rightarrow> parsed_int \<Rightarrow> sensor_doc list \<Rightarrow> db_error + sensor_doc list" where
  "SensorData_find env limit coll =
     (if db_raises env then Inl OperationError
      else
        (case limit of
           PInt n \<Rightarrow>
             if 9223372036854775807 < \<bar>n\<bar> then Inl OperationError
             else if n = 0 then Inr coll
             else if n < 0 then Inr (take (min (nat (- n)) (db_batch_size env)) coll)
             else Inr (take (nat n) coll)
         | _ \<Rightarrow> Inl OperationError))"

text \<open>\<open>SensorData.findOne().sort({createdAt: -1}).lean()\<close>: the newest document or null.\<close>

definition SensorData_findOne :: "request_env \<Rightarrow> sensor_doc list \<Rightarrow> db_error + sensor_doc option" where
  "SensorData_findOne env coll =
     (if db_raises env then Inl OperationError
      else Inr (case coll of [] \<Rightarrow> None | doc # _ \<Rightarrow> Some doc))"

text \<open>The reading the handlers build from a document.\<close>

definition reading_of_doc :: "sensor_doc \<Rightarrow> reading" where
  "reading_of_doc doc =
     \<lparr> waterLevel = doc_waterLevel doc, temperatureCelsius = doc_temperatureCelsius doc,
       temperatureFahrenheit = doc_temperatureFahrenheit doc, timestamp = istTimestamp doc,
       id_js = doc_id doc \<rparr>"

text \<open>
  \<open>sensorData.unshift(entry)\<close>, then \<open>slice(0, 100)\<close> when the length is over 100.
\<close>

definition local_insert :: "reading \<Rightarrow> reading list \<Rightarrow> reading list" where
  "local_insert entry xs =
     (let ys = entry # xs in if 100 < length ys then take 100 ys else ys)"

text \<open>
  \<open>Array.prototype.slice(0, end)\<close>: a negative end counts from the end of the array,
  NaN is zero, and an infinity is the nearer end of the array.
\<close>

definition slice0 :: "'a list \<Rightarrow> parsed_int \<Rightarrow> 'a list" where
  "slice0 xs e =
     (let len = int (length xs);
          final =
            (case e of
               PNaN \<Rightarrow> 0
             | PInt k \<Rightarrow> if k < 0 then max (len + k) 0 else min k len
             | PInfinity \<Rightarrow> len
             | PNegInfinity \<Rightarrow> 0)
      in take (nat final) xs)"

section \<open>The handlers\<close>

datatype json_body =
    Failure string
  | Stored string reading
  | Listing "reading list"
  | Single reading

record response =
  status :: nat
  json :: json_body

text \<open>A handler sends a response or throws; \<open>Thrown\<close> leaves the request unanswered.\<close>

datatype outcome = Sent response | Thrown js_error

definition status_of :: "outcome \<Rightarrow> nat option" where
  "status_of out = (case out of Sent r \<Rightarrow> Some (status r) | Thrown _ \<Rightarrow> None)"

definition is_missing :: "jsval \<Rightarrow> bool" where
  "is_missing v = (v = JUndefined \<or> v = JNull)"

definition missing_fields :: "(string \<times> jsval) list \<Rightarrow> bool" where
  "missing_fields body =
     (is_missing (get_prop body ''waterLevel'')
      \<or> is_missing (get_prop body ''temperatureCelsius'')
      \<or> is_missing (get_prop body ''temperatureFahrenheit''))"

definition missing_response :: response where
  "missing_response =
     \<lparr> status = 400,
       json = Failure ''Missing required fields: waterLevel, temperatureCelsius, or temperatureFahrenheit'' \<rparr>"

text \<open>
  The object literal \<open>entry\<close>: three calls of \<open>Number\<close> in order, the first that throws
  ends the handler; then the timestamp and the id.
\<close>

definition make_entry :: "request_env \<Rightarrow> (string \<times> jsval) list \<Rightarrow> js_error + reading" where
  "make_entry env body =
     (case Number_js (get_prop body ''waterLevel'') of
        Inl e \<Rightarrow> Inl e
      | Inr wl \<Rightarrow>
          (case Number_js (get_prop body ''temperatureCelsius'') of
             Inl e \<Rightarrow> Inl e
           | Inr tc \<Rightarrow>
               (case Number_js (get_prop body ''temperatureFahrenheit'') of
                  Inl e \<Rightarrow> Inl e
                | Inr tf \<Rightarrow>
                    Inr \<lparr> waterLevel = wl, temperatureCelsius = tc, temperatureFahrenheit = tf,
                          timestamp = getISTDateTime (clock_hour_cycle env) (clock_date env),
                          id_js = show_int (clock_now env) \<rparr>)))"

text \<open>
  The fallback of \<open>POST /api/sensor-data\<close>. Its \<open>catch\<close> (status 500) is not a branch
  of the model: \<open>unshift\<close>, \<open>length\<close> and \<open>slice\<close> on an array do not throw.
\<close>

definition store_locally :: "string \<Rightarrow> reading \<Rightarrow> server_state \<Rightarrow> outcome \<times> server_state" where
  "store_locally msg entry s =
     (Sent \<lparr> status = 200, json = Stored msg entry \<rparr>,
      s\<lparr> sensorData := local_insert entry (sensorData s) \<rparr>)"

text \<open>\<open>app.post('/api/sensor-data')\<close> of the server with the database.\<close>

definition post_sensor_data ::
    "request_env \<Rightarrow> (string \<times> jsval) list \<Rightarrow> server_state \<Rightarrow> outcome \<times> server_state" where
  "post_sensor_data env body s =
     (if missing_fields body then (Sent missing_response, s)
      else
        (case make_entry env body of
           Inl e \<Rightarrow> (Thrown e, s)
         | Inr entry \<Rightarrow>
             if isDbConnected env then
               (case SensorData_create env (waterLevel entry) (temperatureCelsius entry)
                       (temperatureFahrenheit entry) (timestamp entry) (collection s) of
                  Inr (doc, coll) \<Rightarrow>
                    (Sent \<lparr> status = 200,
                            json = Stored ''Data stored successfully (db)'' (reading_of_doc doc) \<rparr>,
                     s\<lparr> collection := coll \<rparr>)
                | Inl err \<Rightarrow> store_locally ''Data stored locally (fallback)'' entry s)
             else store_locally ''Data stored locally (fallback)'' entry s))"

text \<open>
  ToString of \<open>req.query.limit\<close>, as \<open>parseInt\<close> applies it: \<open>undefined\<close> when the
  parameter is absent, the join of an array, \<open>[object Object]\<close> for an object, and a
  TypeError where an own property \<open>toString\<close> hides the method.
\<close>

fun qs_throws :: "qsval \<Rightarrow> bool" where
  "qs_throws (QStr s) = False"
| "qs_throws (QArr xs) = (\<exists>x \<in> set xs. qs_throws x)"
| "qs_throws (QObj kvs) = (''toString'' \<in> fst ` set kvs)"

fun join_comma :: "string list \<Rightarrow> string" where
  "join_comma [] = []"
| "join_comma [x] = x"
| "join_comma (x # y # zs) = x @ '','' @ join_comma (y # zs)"

fun qs_string :: "qsval \<Rightarrow> string" where
  "qs_string (QStr s) = s"
| "qs_string (QArr xs) = join_comma (map qs_string xs)"
| "qs_string (QObj kvs) = ''[object Object]''"

definition ToString_query :: "qsval option \<Rightarrow> js_error + string" where
  "ToString_query q =
     (case q of
        None \<Rightarrow> Inr ''undefined''
      | Some v \<Rightarrow> if qs_throws v then Inl TypeError else Inr (qs_string v))"

text \<open>
  \<open>x || 10\<close> on the result of \<open>parseInt\<close>: NaN and zero are falsy, every other
  number is itself.
\<close>

definition or_10 :: "parsed_int \<Rightarrow> parsed_int" where
  "or_10 p =
     (case p of
        PNaN \<Rightarrow> PInt 10
      | PInt n \<Rightarrow> if n = 0 then PInt 10 else PInt n
      | PInfinity \<Rightarrow> PInfinity
      | PNegInfinity \<Rightarrow> PNegInfinity)"

text \<open>\<open>const limit = parseInt(req.query.limit, 10) || 10\<close>\<close>

definition query_limit :: "qsval option \<Rightarrow> js_error + parsed_int" where
  "query_limit q =
     (case ToString_query q of Inl e \<Rightarrow> Inl e | Inr str \<Rightarrow> Inr (or_10 (parseInt str 10)))"

text \<open>
  The fallback of \<open>GET /api/sensor-data\<close>: \<open>slice(0, limit)\<close> of the local store.
  \<open>slice\<close> does not throw, so the \<open>catch\<close> around it (status 500) is not a branch.
\<close>

definition list_locally :: "parsed_int \<Rightarrow> server_state \<Rightarrow> outcome \<times> server_state" where
  "list_locally limit s =
     (Sent \<lparr> status = 200, json = Listing (slice0 (sensorData s) limit) \<rparr>, s)"

text \<open>\<open>app.get('/api/sensor-data')\<close> of the server with the database.\<close>

definition get_sensor_data ::
    "request_env \<Rightarrow> qsval option \<Rightarrow> server_state \<Rightarrow> outcome \<times> server_state" where
  "get_sensor_data env q s =
     (case query_limit q of
        Inl e \<Rightarrow> (Thrown e, s)
      | Inr limit \<Rightarrow>
          if isDbConnected env then
            (case SensorData_find env limit (collection s) of
               Inr docs \<Rightarrow>
                 (Sent \<lparr> status = 200, json = Listing (map reading_of_doc docs) \<rparr>, s)
             | Inl err \<Rightarrow> list_locally limit s)
          else list_locally limit s)"

text \<open>The front entry of the local store, or 404 when the store is empty.\<close>

definition latest_locally :: "server_state \<Rightarrow> outcome \<times> server_state" where
  "latest_locally s =
     (case sensorData s of
        entry # _ \<Rightarrow> (Sent \<lparr> status = 200, json = Single entry \<rparr>, s)
      | [] \<Rightarrow> (Sent \<lparr> status = 404, json = Failure ''No data available'' \<rparr>, s))"

text \<open>\<open>app.get('/api/sensor-data/latest')\<close> of the server with the database.\<close>

definition get_sensor_data_latest :: "request_env \<Rightarrow> server_state \<Rightarrow> outcome \<times> server_state" where
  "get_sensor_data_latest env s =
     (if isDbConnected env then
        (case SensorData_findOne env (collection s) of
           Inr (Some doc) \<Rightarrow> (Sent \<lparr> status = 200, json = Single (reading_of_doc doc) \<rparr>, s)
         | Inr None \<Rightarrow> latest_locally s
         | Inl err \<Rightarrow> latest_locally s)
      else latest_locally s)"

subsection \<open>The server without a database (\<open>server.js\<close>)\<close>

text \<open>
  The same three routes over the local store alone. The limit is read without a radix, so
  a prefix \<open>0x\<close> is hexadecimal. The \<open>catch\<close> of each route (status 500) is not
  a branch: nothing in its \<open>try\<close> throws.
\<close>

definition server_js_post_sensor_data ::
    "request_env \<Rightarrow> (string \<times> jsval) list \<Rightarrow> server_state \<Rightarrow> outcome \<times> server_state" where
  "server_js_post_sensor_data env body s =
     (if missing_fields body then (Sent missing_response, s)
      else
        (case make_entry env body of
           Inl e \<Rightarrow> (Thrown e, s)
         | Inr newData \<Rightarrow> store_locally ''Data stored successfully'' newData s))"

definition server_js_query_limit :: "qsval option \<Rightarrow> js_error + parsed_int" where
  "server_js_query_limit q =
     (case ToString_query q of Inl e \<Rightarrow> Inl e | Inr str \<Rightarrow> Inr (or_10 (parseInt str 0)))"

definition server_js_get_sensor_data ::
    "qsval option \<Rightarrow> server_state \<Rightarrow> outcome \<times> server_state" where
  "server_js_get_sensor_data q s =
     (case server_js_query_limit q of
        Inl e \<Rightarrow> (Thrown e, s)
      | Inr limit \<Rightarrow> list_locally limit s)"

definition server_js_get_sensor_data_latest :: "server_state \<Rightarrow> outcome \<times> server_state" where
  "server_js_get_sensor_data_latest s = latest_locally s"

subsection \<open>Sequences of requests\<close>

datatype request =
    PostSensorData "(string \<times> jsval) list"
  | GetSensorData "qsval option"
  | GetLatest

fun handle :: "request_env \<Rightarrow> request \<Rightarrow> server_state \<Rightarrow> outcome \<times> server_state" where
  "handle env (PostSensorData body) s = post_sensor_data env body s"
| "handle env (GetSensorData q) s = get_sensor_data env q s"
| "handle env GetLatest s = get_sensor_data_latest env s"

text \<open>The requests of a session one after the other, each with what it finds around it.\<close>

fun run :: "(request_env \<times> request) list \<Rightarrow> server_state \<Rightarrow> server_state" where
  "run [] s = s"
| "run ((env, req) # rest) s = run rest (snd (handle env req s))"

text \<open>The reading in the field \<open>latestData\<close> of a response.\<close>

definition latestData :: "outcome \<Rightarrow> reading option" where
  "latestData out =
     (case out of
        Sent r \<Rightarrow> (case json r of Stored msg entry \<Rightarrow> Some entry | _ \<Rightarrow> None)
      | Thrown e \<Rightarrow> None)"

text \<open>Inserting readings one after the other, the first of the list first.\<close>

definition insert_all :: "reading list \<Rightarrow> reading list \<Rightarrow> reading list" where
  "insert_all es xs = foldl (\<lambda>buf e. local_insert e buf) xs es"

section \<open>Sessions without the database\<close>

text \<open>
  The database is unreachable for a request when the connection is not live or the call
  raises.
\<close>

definition unreachable :: "request_env \<Rightarrow> bool" where
  "unreachable env = (\<not> isDbConnected env \<or> db_raises env)"

text \<open>A create is valid when its three fields are present and the entry gets built.\<close>

definition valid_create :: "request_env \<times> (string \<times> jsval) list \<Rightarrow> bool" where
  "valid_create p =
     (\<not> missing_fields (snd p)
      \<and> (case make_entry (fst p) (snd p) of Inr entry \<Rightarrow> True | Inl e \<Rightarrow> False))"

text \<open>The reading a create request makes, if any.\<close>

definition entry_of :: "request_env \<times> (string \<times> jsval) list \<Rightarrow> reading list" where
  "entry_of p = (case make_entry (fst p) (snd p) of Inr entry \<Rightarrow> [entry] | Inl e \<Rightarrow> [])"

definition creates :: "(request_env \<times> (string \<times> jsval) list) list \<Rightarrow> (request_env \<times> request) list" where
  "creates posts = map (\<lambda>p. (fst p, PostSensorData (snd p))) posts"

section \<open>Sample requests\<close>

text \<open>
  Concrete surroundings, bodies, readings and stores, on which the properties below are
  evaluated.
\<close>

definition env_db_down :: request_env where
  "env_db_down =
     \<lparr> readyState = 0, db_raises = False, db_new_id = ''6727a1b2c3d4e5f601234567'',
       db_batch_size = 101, clock_date = 1730612345678, clock_now = 1730612345679,
       clock_hour_cycle = H23 \<rparr>"

definition env_db_up :: request_env where
  "env_db_up = env_db_down \<lparr> readyState := 1 \<rparr>"

definition env_db_failing :: request_env where
  "env_db_failing = env_db_down \<lparr> readyState := 1, db_raises := True \<rparr>"

definition body_example :: "(string \<times> jsval) list" where
  "body_example =
     [(''waterLevel'', JNum (Fin (25 / 2))),
      (''temperatureCelsius'', JNum (Fin (283 / 10))),
      (''temperatureFahrenheit'', JNum (Fin (829 / 10)))]"

definition body_zero_negative :: "(string \<times> jsval) list" where
  "body_zero_negative =
     [(''waterLevel'', JNum (Fin 0)),
      (''temperatureCelsius'', JNum (Fin (- 3))),
      (''temperatureFahrenheit'', JNum (Fin (133 / 5)))]"

definition body_no_celsius :: "(string \<times> jsval) list" where
  "body_no_celsius =
     [(''waterLevel'', JNum (Fin (25 / 2))),
      (''temperatureFahrenheit'', JNum (Fin (829 / 10)))]"

definition state_empty :: server_state where
  "state_empty = \<lparr> sensorData = [], collection = [] \<rparr>"

definition body_to_string_object :: "(string \<times> jsval) list" where
  "body_to_string_object =
     [(''waterLevel'', JObj [(''toString'', JNull)]),
      (''temperatureCelsius'', JStr ''abc''),
      (''temperatureFahrenheit'', JStr ''abc'')]"

definition body_abc :: "(string \<times> jsval) list" where
  "body_abc =
     [(''waterLevel'', JStr ''abc''),
      (''temperatureCelsius'', JNum (Fin (283 / 10))),
      (''temperatureFahrenheit'', JBool True)]"

definition reading_a :: reading where
  "reading_a =
     \<lparr> waterLevel = Fin 7, temperatureCelsius = Fin 21, temperatureFahrenheit = Fin (349 / 5),
       timestamp = ''2024-11-03, 11:09:05'', id_js = ''1730612345679'' \<rparr>"

definition doc_b :: sensor_doc where
  "doc_b =
     \<lparr> doc_waterLevel = Fin 9, doc_temperatureCelsius = Fin 22,
       doc_temperatureFahrenheit = Fin (358 / 5), istTimestamp = ''2024-11-03, 11:10:00'',
       doc_id = ''6727a1b2c3d4e5f601234567'' \<rparr>"

definition sample_reading :: "int \<Rightarrow> reading" where
  "sample_reading i =
     \<lparr> waterLevel = Fin (of_int i), temperatureCelsius = Fin 21,
       temperatureFahrenheit = Fin (349 / 5), timestamp = ''2024-11-03, 11:09:05'',
       id_js = show_int (1730612345000 + i) \<rparr>"

definition buffer_8 :: "reading list" where
  "buffer_8 = map sample_reading [8, 7, 6, 5, 4, 3, 2, 1]"

definition entry_example :: reading where
  "entry_example =
     \<lparr> waterLevel = Fin (25 / 2), temperatureCelsius = Fin (283 / 10),
       temperatureFahrenheit = Fin (829 / 10), timestamp = ''2024-11-03, 11:09:05'',
       id_js = ''1730612345679'' \<rparr>"

definition entry_abc :: reading where
  "entry_abc =
     \<lparr> waterLevel = NaN, temperatureCelsius = Fin (283 / 10),
       temperatureFahrenheit = Fin 1, timestamp = ''2024-11-03, 11:09:05'',
       id_js = ''1730612345679'' \<rparr>"

definition entry_zero_negative :: reading where
  "entry_zero_negative =
     \<lparr> waterLevel = Fin 0, temperatureCelsius = Fin (- 3),
       temperatureFahrenheit = Fin (133 / 5), timestamp = ''2024-11-03, 11:09:05'',
       id_js = ''1730612345679'' \<rparr>"

definition posts_2 :: "(request_env \<times> (string \<times> jsval) list) list" where
  "posts_2 = [(env_db_down, body_example), (env_db_failing, body_zero_negative)]"

definition posts_101 :: "(request_env \<times> (string \<times> jsval) list) list" where
  "posts_101 = replicate 101 (env_db_down, body_example)"

section \<open>Properties\<close>

subsection \<open>The cases of the create handler\<close>

lemma status_of_Sent [simp]: "status_of (Sent r) = Some (status r)"
  by (simp add: status_of_def)

lemma status_of_Thrown [simp]: "status_of (Thrown e) = None"
  by (simp add: status_of_def)

lemma latestData_Stored [simp]:
  "latestData (Sent \<lparr> status = st, json = Stored msg entry \<rparr>) = Some entry"
  by (simp add: latestData_def)

lemma store_locally_simps [simp]:
  "fst (store_locally msg entry s) = Sent \<lparr> status = 200, json = Stored msg entry \<rparr>"
  "snd (store_locally msg entry s) = s\<lparr> sensorData := local_insert entry (sensorData s) \<rparr>"
  by (simp_all add: store_locally_def)

lemma post_missing:
  "missing_fields body \<Longrightarrow> post_sensor_data env body s = (Sent missing_response, s)"
  by (simp add: post_sensor_data_def)

lemma post_thrown:
  "\<not> missing_fields body \<Longrightarrow> make_entry env body = Inl e
   \<Longrightarrow> post_sensor_data env body s = (Thrown e, s)"
  by (simp add: post_sensor_data_def)

lemma post_local:
  assumes "\<not> missing_fields body" "make_entry env body = Inr entry"
    and "\<not> isDbConnected env
         \<or> (\<exists>err. SensorData_create env (waterLevel entry) (temperatureCelsius entry)
                (temperatureFahrenheit entry) (timestamp entry) (collection s) = Inl err)"
  shows "post_sensor_data env body s = store_locally ''Data stored locally (fallback)'' entry s"
  using assms by (auto simp: post_sensor_data_def)

lemma post_db:
  assumes "\<not> missing_fields body" "make_entry env body = Inr entry" "isDbConnected env"
    and "SensorData_create env (waterLevel entry) (temperatureCelsius entry)
           (temperatureFahrenheit entry) (timestamp entry) (collection s) = Inr (doc, coll)"
  shows "post_sensor_data env body s =
           (Sent \<lparr> status = 200,
                   json = Stored ''Data stored successfully (db)'' (reading_of_doc doc) \<rparr>,
            s\<lparr> collection := coll \<rparr>)"
  using assms by (simp add: post_sensor_data_def)

lemma post_cases:
  obtains (missing) "missing_fields body" "post_sensor_data env body s = (Sent missing_response, s)"
  | (thrown) e where "\<not> missing_fields body" "make_entry env body = Inl e"
      "post_sensor_data env body s = (Thrown e, s)"
  | (local) entry where "\<not> missing_fields body" "make_entry env body = Inr entry"
      "post_sensor_data env body s = store_locally ''Data stored locally (fallback)'' entry s"
  | (db) entry doc coll where "\<not> missing_fields body" "make_entry env body = Inr entry"
      "isDbConnected env"
      "SensorData_create env (waterLevel entry) (temperatureCelsius entry)
           (temperatureFahrenheit entry) (timestamp entry) (collection s) = Inr (doc, coll)"
      "post_sensor_data env body s =
           (Sent \<lparr> status = 200,
                   json = Stored ''Data stored successfully (db)'' (reading_of_doc doc) \<rparr>,
            s\<lparr> collection := coll \<rparr>)"
proof (cases "missing_fields body")
  case True
  then show ?thesis using missing post_missing by blast
next
  case nm: False
  show ?thesis
  proof (cases "make_entry env body")
    case (Inl e)
    then show ?thesis using thrown nm post_thrown by blast
  next
    case (Inr entry)
    show ?thesis
    proof (cases "isDbConnected env")
      case False
      then show ?thesis using local [OF nm Inr] post_local [OF nm Inr] by blast
    next
      case True
      show ?thesis
      proof (cases "SensorData_create env (waterLevel entry) (temperatureCelsius entry)
           (temperatureFahrenheit entry) (timestamp entry) (collection s)")
        case (Inl err)
        then show ?thesis using local [OF nm Inr] post_local [OF nm Inr] by blast
      next
        case (Inr p)
        obtain doc coll where "p = (doc, coll)" by (cases p)
        with Inr show ?thesis
          using db [OF nm \<open>make_entry env body = Inr entry\<close> True] post_db [OF nm \<open>make_entry env body = Inr entry\<close> True]
          by blast
      qed
    qed
  qed
qed

lemma missing_response_status [simp]: "status missing_response = 400"
  by (simp add: missing_response_def)

lemma server_js_post_cases:
  obtains (missing) "missing_fields body"
      "server_js_post_sensor_data env body s = (Sent missing_response, s)"
  | (thrown) e where "\<not> missing_fields body" "make_entry env body = Inl e"
      "server_js_post_sensor_data env body s = (Thrown e, s)"
  | (local) entry where "\<not> missing_fields body" "make_entry env body = Inr entry"
      "server_js_post_sensor_data env body s = store_locally ''Data stored successfully'' entry s"
  by (cases "missing_fields body"; cases "make_entry env body")
    (auto simp: server_js_post_sensor_data_def)

lemma make_entry_numbers:
  assumes "get_prop body ''waterLevel'' = JNum a"
    and "get_prop body ''temperatureCelsius'' = JNum b"
    and "get_prop body ''temperatureFahrenheit'' = JNum c"
  shows "make_entry env body =
           Inr \<lparr> waterLevel = a, temperatureCelsius = b, temperatureFahrenheit = c,
                 timestamp = getISTDateTime (clock_hour_cycle env) (clock_date env),
                 id_js = show_int (clock_now env) \<rparr>"
    and "\<not> missing_fields body"
  using assms by (simp_all add: make_entry_def missing_fields_def is_missing_def)

lemma make_entry_fields:
  assumes "make_entry env body = Inr entry"
  shows "Number_js (get_prop body ''waterLevel'') = Inr (waterLevel entry)"
    and "Number_js (get_prop body ''temperatureCelsius'') = Inr (temperatureCelsius entry)"
    and "Number_js (get_prop body ''temperatureFahrenheit'') = Inr (temperatureFahrenheit entry)"
    and "timestamp entry = getISTDateTime (clock_hour_cycle env) (clock_date env)"
    and "id_js entry = show_int (clock_now env)"
  using assms by (auto simp: make_entry_def split: sum.splits)

lemma create_doc:
  assumes "SensorData_create env wl tc tf ts coll = Inr (doc, coll')"
  shows "reading_of_doc doc =
           \<lparr> waterLevel = wl, temperatureCelsius = tc, temperatureFahrenheit = tf,
             timestamp = ts, id_js = db_new_id env \<rparr>"
    and "coll' = doc # coll" and "wl \<noteq> NaN" and "tc \<noteq> NaN" and "tf \<noteq> NaN"
    and "\<not> db_raises env"
  using assms by (auto simp: SensorData_create_def reading_of_doc_def Let_def split: if_splits)

subsection \<open>Field presence\<close>

text \<open>
  C4. \<open>POST /api/sensor-data\<close> answers 400 exactly when one of \<open>waterLevel\<close>,
  \<open>temperatureCelsius\<close>, \<open>temperatureFahrenheit\<close> is undefined or null in the
  body, in both servers; the answer is then the failure message and neither the local
  store nor the collection changes; and three numeric values, zero and negative ones
  among them, are answered with 200.
\<close>

theorem post_400_iff_missing:
  "(status_of (fst (post_sensor_data env body s)) = Some 400 \<longleftrightarrow> missing_fields body)
   \<and> (status_of (fst (server_js_post_sensor_data env body s)) = Some 400
        \<longleftrightarrow> missing_fields body)
   \<and> (missing_fields body \<longrightarrow>
         post_sensor_data env body s = (Sent missing_response, s)
         \<and> server_js_post_sensor_data env body s = (Sent missing_response, s))
   \<and> (get_prop body ''waterLevel'' = JNum (Fin a)
        \<and> get_prop body ''temperatureCelsius'' = JNum (Fin b)
        \<and> get_prop body ''temperatureFahrenheit'' = JNum (Fin c) \<longrightarrow>
         status_of (fst (post_sensor_data env body s)) = Some 200
         \<and> status_of (fst (server_js_post_sensor_data env body s)) = Some 200)"
proof -
  have db: "status_of (fst (post_sensor_data env body s)) = Some 400 \<longleftrightarrow> missing_fields body"
    by (cases env body s rule: post_cases) auto
  have js: "status_of (fst (server_js_post_sensor_data env body s)) = Some 400
        \<longleftrightarrow> missing_fields body"
    by (cases env body s rule: server_js_post_cases) auto
  have unchanged: "missing_fields body \<longrightarrow>
         post_sensor_data env body s = (Sent missing_response, s)
         \<and> server_js_post_sensor_data env body s = (Sent missing_response, s)"
    by (simp add: post_missing server_js_post_sensor_data_def)
  have numbers: "status_of (fst (post_sensor_data env body s)) = Some 200
         \<and> status_of (fst (server_js_post_sensor_data env body s)) = Some 200"
    if n: "get_prop body ''waterLevel'' = JNum (Fin a)"
        "get_prop body ''temperatureCelsius'' = JNum (Fin b)"
        "get_prop body ''temperatureFahrenheit'' = JNum (Fin c)"
  proof -
    note e = make_entry_numbers(1) [OF n, of env] make_entry_numbers(2) [OF n]
    have "status_of (fst (post_sensor_data env body s)) = Some 200"
      using e by (cases env body s rule: post_cases) auto
    moreover have "status_of (fst (server_js_post_sensor_data env body s)) = Some 200"
      using e by (cases env body s rule: server_js_post_cases) auto
    ultimately show ?thesis by simp
  qed
  from db js unchanged numbers show ?thesis by blast
qed

theorem post_400_iff_missing_witness:
  "missing_fields body_no_celsius
   \<and> post_sensor_data env_db_up body_no_celsius state_empty = (Sent missing_response, state_empty)
   \<and> server_js_post_sensor_data env_db_up body_no_celsius state_empty
       = (Sent missing_response, state_empty)
   \<and> status_of (fst (post_sensor_data env_db_down body_zero_negative state_empty)) = Some 200
   \<and> status_of (fst (server_js_post_sensor_data env_db_down body_zero_negative state_empty))
       = Some 200
   \<and> status_of (fst (post_sensor_data env_db_down body_example state_empty)) \<noteq> Some 400"
proof -
  have m: "missing_fields body_no_celsius"
    by (simp add: missing_fields_def is_missing_def get_prop_def body_no_celsius_def)
  have z: "get_prop body_zero_negative ''waterLevel'' = JNum (Fin 0)"
    "get_prop body_zero_negative ''temperatureCelsius'' = JNum (Fin (- 3))"
    "get_prop body_zero_negative ''temperatureFahrenheit'' = JNum (Fin (133 / 5))"
    by (simp_all add: get_prop_def body_zero_negative_def)
  have n: "\<not> missing_fields body_example"
    by (simp add: missing_fields_def is_missing_def get_prop_def body_example_def)
  show ?thesis
    using m z n post_400_iff_missing [of env_db_up body_no_celsius state_empty]
      post_400_iff_missing [of env_db_down body_zero_negative state_empty 0 "- 3" "133 / 5"]
      post_400_iff_missing [of env_db_down body_example state_empty]
    by simp
qed

subsection \<open>Pass-through of the three numbers\<close>

text \<open>
  C8. For a body whose three fields are numbers, both servers answer 200 and the reading
  in \<open>latestData\<close> carries the three numbers as they came, whether it went to the
  database or to the local store; the Fahrenheit value returned is the one received,
  whatever the Celsius value.
\<close>


theorem create_returns_input_values:
  assumes "get_prop body ''waterLevel'' = JNum a"
    and "get_prop body ''temperatureCelsius'' = JNum b"
    and "get_prop body ''temperatureFahrenheit'' = JNum c"
  shows "status_of (fst (post_sensor_data env body s)) = Some 200
       \<and> map_option waterLevel (latestData (fst (post_sensor_data env body s))) = Some a
       \<and> map_option temperatureCelsius (latestData (fst (post_sensor_data env body s))) = Some b
       \<and> map_option temperatureFahrenheit (latestData (fst (post_sensor_data env body s))) = Some c
       \<and> status_of (fst (server_js_post_sensor_data env body s)) = Some 200
       \<and> map_option waterLevel (latestData (fst (server_js_post_sensor_data env body s))) = Some a
       \<and> map_option temperatureCelsius (latestData (fst (server_js_post_sensor_data env body s))) = Some b
       \<and> map_option temperatureFahrenheit (latestData (fst (server_js_post_sensor_data env body s))) = Some c"
proof -
  note e = make_entry_numbers(1) [OF assms, of env] make_entry_numbers(2) [OF assms]
  have db: "status_of (fst (post_sensor_data env body s)) = Some 200
       \<and> map_option waterLevel (latestData (fst (post_sensor_data env body s))) = Some a
       \<and> map_option temperatureCelsius (latestData (fst (post_sensor_data env body s))) = Some b
       \<and> map_option temperatureFahrenheit (latestData (fst (post_sensor_data env body s))) = Some c"
  proof (cases env body s rule: post_cases)
    case missing
    with e(2) show ?thesis by simp
  next
    case (thrown err)
    with e(1) show ?thesis by simp
  next
    case (local entry)
    with e(1) show ?thesis by auto
  next
    case (db entry doc coll)
    from db(2) e(1) have entry: "waterLevel entry = a" "temperatureCelsius entry = b"
      "temperatureFahrenheit entry = c" by auto
    from create_doc(1) [OF db(4)] entry db(5) show ?thesis by simp
  qed
  have js: "status_of (fst (server_js_post_sensor_data env body s)) = Some 200
       \<and> map_option waterLevel (latestData (fst (server_js_post_sensor_data env body s))) = Some a
       \<and> map_option temperatureCelsius (latestData (fst (server_js_post_sensor_data env body s))) = Some b
       \<and> map_option temperatureFahrenheit (latestData (fst (server_js_post_sensor_data env body s))) = Some c"
  proof (cases env body s rule: server_js_post_cases)
    case missing
    with e(2) show ?thesis by simp
  next
    case (thrown err)
    with e(1) show ?thesis by simp
  next
    case (local entry)
    with e(1) show ?thesis by auto
  qed
  from db js show ?thesis by simp
qed

theorem create_returns_input_values_witness:
  "status_of (fst (post_sensor_data env_db_up body_example state_empty)) = Some 200
   \<and> map_option waterLevel (latestData (fst (post_sensor_data env_db_up body_example state_empty)))
       = Some (Fin (25 / 2))
   \<and> map_option temperatureCelsius
         (latestData (fst (post_sensor_data env_db_up body_example state_empty)))
       = Some (Fin (283 / 10))
   \<and> map_option temperatureFahrenheit
         (latestData (fst (post_sensor_data env_db_up body_example state_empty)))
       = Some (Fin (829 / 10))"
proof -
  have n: "get_prop body_example ''waterLevel'' = JNum (Fin (25 / 2))"
    "get_prop body_example ''temperatureCelsius'' = JNum (Fin (283 / 10))"
    "get_prop body_example ''temperatureFahrenheit'' = JNum (Fin (829 / 10))"
    by (simp_all add: get_prop_def body_example_def)
  show ?thesis
    using create_returns_input_values [OF n, of env_db_up state_empty] by simp
qed

subsection \<open>The read handlers\<close>

lemma list_locally_simps [simp]:
  "fst (list_locally limit s) = Sent \<lparr> status = 200, json = Listing (slice0 (sensorData s) limit) \<rparr>"
  "snd (list_locally limit s) = s"
  by (simp_all add: list_locally_def)

lemma latest_locally_snd [simp]: "snd (latest_locally s) = s"
  by (simp add: latest_locally_def split: list.splits)

lemma get_sensor_data_snd: "snd (get_sensor_data env q s) = s"
  by (simp add: get_sensor_data_def split: sum.splits)

lemma get_sensor_data_latest_snd: "snd (get_sensor_data_latest env s) = s"
  by (simp add: get_sensor_data_latest_def split: sum.splits option.splits)

lemma get_cases:
  obtains (thrown) e where "query_limit q = Inl e" "get_sensor_data env q s = (Thrown e, s)"
  | (db) limit docs where "query_limit q = Inr limit" "isDbConnected env"
      "SensorData_find env limit (collection s) = Inr docs"
      "get_sensor_data env q s
         = (Sent \<lparr> status = 200, json = Listing (map reading_of_doc docs) \<rparr>, s)"
  | (local) limit where "query_limit q = Inr limit"
      "\<not> isDbConnected env \<or> (\<exists>err. SensorData_find env limit (collection s) = Inl err)"
      "get_sensor_data env q s = list_locally limit s"
proof (cases "query_limit q")
  case (Inl e)
  then show ?thesis using thrown by (simp add: get_sensor_data_def)
next
  case lim: (Inr limit)
  show ?thesis
  proof (cases "isDbConnected env")
    case False
    then show ?thesis using local [OF lim] lim by (simp add: get_sensor_data_def)
  next
    case True
    then show ?thesis using local [OF lim] db [OF lim True] lim
      by (cases "SensorData_find env limit (collection s)") (auto simp: get_sensor_data_def)
  qed
qed

subsection \<open>Reading integers and decimal digits\<close>

lemma is_digit_digit_char: "0 \<le> k \<Longrightarrow> k \<le> 9 \<Longrightarrow> is_digit (digit_char k)"
  by (simp add: is_digit_def digit_char_def)

lemma digit_of_digit_char: "0 \<le> k \<Longrightarrow> k \<le> 9 \<Longrightarrow> digit_of (digit_char k) = k"
  by (simp add: digit_of_def digit_char_def Let_def)

lemma is_radix_digit_10: "is_radix_digit 10 c = is_digit c"
  by (auto simp: is_radix_digit_def digit_of_def is_digit_def Let_def)

lemma is_digit_not_ws: "is_digit c \<Longrightarrow> \<not> is_ws c"
  by (auto simp: is_digit_def is_ws_def)

lemma is_digit_not_sign: "is_digit c \<Longrightarrow> c \<noteq> CHR ''-'' \<and> c \<noteq> CHR ''+'' \<and> c \<noteq> CHR ''x'' \<and> c \<noteq> CHR ''X''"
  by (auto simp: is_digit_def)

lemma show_nat_digits: "0 \<le> n \<Longrightarrow> list_all is_digit (show_nat n)"
proof (induction n rule: show_nat.induct)
  case (1 n)
  show ?case
  proof (cases "n < 10")
    case True
    with 1 show ?thesis by (subst show_nat.simps) (simp add: is_digit_digit_char)
  next
    case False
    with 1 show ?thesis by (subst show_nat.simps) (simp add: is_digit_digit_char)
  qed
qed

lemma show_nat_not_Nil: "show_nat n \<noteq> []"
  by (subst show_nat.simps) simp

lemma digits_value_snoc: "digits_value r (ds @ [c]) = digits_value r ds * r + digit_of c"
  by (simp add: digits_value_def)

lemma digits_value_show_nat: "0 \<le> n \<Longrightarrow> digits_value 10 (show_nat n) = n"
proof (induction n rule: show_nat.induct)
  case (1 n)
  show ?case
  proof (cases "n < 10")
    case True
    with 1 show ?thesis
      by (subst show_nat.simps) (simp add: digits_value_def digit_of_digit_char)
  next
    case False
    with 1 have "digits_value 10 (show_nat (n div 10)) = n div 10" by simp
    with False 1 show ?thesis
      by (subst show_nat.simps) (simp add: digits_value_snoc digit_of_digit_char)
  qed
qed

lemma takeWhile_all: "list_all P xs \<Longrightarrow> takeWhile P xs = xs"
  by (induction xs) auto

lemma bit_length_bound: "a < 2 ^ k \<Longrightarrow> bit_length a \<le> k"
proof (induction k arbitrary: a)
  case 0
  then show ?case by (subst bit_length.simps) simp
next
  case (Suc k)
  show ?case
  proof (cases "a \<le> 0")
    case True
    then show ?thesis by (subst bit_length.simps) simp
  next
    case False
    from Suc.prems have "a div 2 < 2 ^ k" by simp
    from Suc.IH [OF this] False show ?thesis by (subst bit_length.simps) simp
  qed
qed

lemma to_binary64_exact:
  assumes "\<bar>i\<bar> < 2 ^ 53"
  shows "to_binary64 i = PInt i"
proof -
  have e: "bit_length \<bar>i\<bar> - 53 = 0" using bit_length_bound [OF assms] by simp
  have "\<bar>i\<bar> < (2 :: int) ^ 1024"
    using assms by (rule less_trans) simp
  then show ?thesis
    unfolding to_binary64_def Let_def e by (simp add: abs_if)
qed

lemma parseInt_digits:
  assumes "ds \<noteq> []" "list_all is_digit ds" "radix = 10 \<or> radix = 0"
  shows "parseInt ds radix = to_binary64 (digits_value 10 ds)"
    and "parseInt (CHR ''-'' # ds) radix = to_binary64 (- digits_value 10 ds)"
proof -
  obtain c cs where ds: "ds = c # cs" using assms(1) by (cases ds) auto
  have c: "is_digit c" using assms(2) ds by simp
  note nc = is_digit_not_ws [OF c] is_digit_not_sign [OF c]
  have nohex: "take 2 ds \<noteq> ''0x''" "take 2 ds \<noteq> ''0X''"
  proof -
    { fix p assume "take 2 ds = [CHR ''0'', p]" and p: "\<not> is_digit p"
      then have "p \<in> set ds" by (metis in_set_takeD list.set_intros(1,2))
      with assms(2) p have False by (simp add: list_all_iff) }
    then show "take 2 ds \<noteq> ''0x''" "take 2 ds \<noteq> ''0X''"
      by (auto simp: is_digit_def)
  qed
  have tw: "takeWhile (is_radix_digit 10) ds = ds"
    using assms(2) by (simp add: is_radix_digit_10 [abs_def] takeWhile_all)
  have ws: "dropWhile is_ws ds = ds" using nc ds by simp
  have ws': "dropWhile is_ws (CHR ''-'' # ds) = CHR ''-'' # ds" by (simp add: is_ws_def)
  have hd: "hd ds \<noteq> CHR ''-''" "hd ds \<noteq> CHR ''+''" using nc ds by simp_all
  show "parseInt ds radix = to_binary64 (digits_value 10 ds)"
    unfolding parseInt_def ws Let_def using assms(3) by (auto simp: assms(1) hd nohex tw)
  show "parseInt (CHR ''-'' # ds) radix = to_binary64 (- digits_value 10 ds)"
    unfolding parseInt_def ws' Let_def using assms(3) by (auto simp: assms(1) nohex tw)
qed

lemma parseInt_show_int:
  assumes "radix = 10 \<or> radix = 0" and "\<bar>n\<bar> < 2 ^ 53"
  shows "parseInt (show_int n) radix = PInt n"
proof (cases "n < 0")
  case True
  then have "0 \<le> - n" by simp
  from parseInt_digits(2) [OF show_nat_not_Nil show_nat_digits [OF this] assms(1)]
    digits_value_show_nat [OF this] True
  show ?thesis by (simp add: show_int_def to_binary64_exact [OF assms(2)])
next
  case False
  then have "0 \<le> n" by simp
  from parseInt_digits(1) [OF show_nat_not_Nil show_nat_digits [OF this] assms(1)]
    digits_value_show_nat [OF this] False
  show ?thesis by (simp add: show_int_def to_binary64_exact [OF assms(2)])
qed

lemma parseInt_no_digit:
  assumes "list_all (\<lambda>c. \<not> is_digit c) str" "radix = 10 \<or> radix = 0"
  shows "parseInt str radix = PNaN"
proof -
  define s where "s = dropWhile is_ws str"
  define s1 where "s1 = (if s \<noteq> [] \<and> (hd s = CHR ''+'' \<or> hd s = CHR ''-'') then tl s else s)"
  have "set s \<subseteq> set str" unfolding s_def by (simp add: set_dropWhileD subsetI)
  moreover have "set s1 \<subseteq> set s" unfolding s1_def by (auto dest: list.set_sel(2))
  ultimately have nd: "\<forall>c \<in> set s1. \<not> is_digit c" using assms by (auto simp: list_all_iff)
  then have tw: "takeWhile (is_radix_digit 10) s1 = []"
    by (cases s1) (auto simp: is_radix_digit_10)
  have nohex: "take 2 s1 \<noteq> ''0x''" "take 2 s1 \<noteq> ''0X''"
  proof -
    { fix p assume "take 2 s1 = [CHR ''0'', p]"
      then have "CHR ''0'' \<in> set s1" by (metis in_set_takeD list.set_intros(1))
      with nd have False by (auto simp: is_digit_def) }
    then show "take 2 s1 \<noteq> ''0x''" "take 2 s1 \<noteq> ''0X''" by auto
  qed
  show ?thesis
    unfolding parseInt_def Let_def s_def [symmetric] s1_def [symmetric]
    using assms(2) by (auto simp: nohex tw)
qed

lemma slice0_Nil [simp]: "slice0 [] e = []"
  by (simp add: slice0_def)

lemma query_limit_None:
  "query_limit None = Inr (PInt 10)" "server_js_query_limit None = Inr (PInt 10)"
proof -
  have "list_all (\<lambda>c. \<not> is_digit c) ''undefined''" by (simp add: is_digit_def)
  then show "query_limit None = Inr (PInt 10)" "server_js_query_limit None = Inr (PInt 10)"
    by (simp_all add: query_limit_def server_js_query_limit_def ToString_query_def
        parseInt_no_digit or_10_def)
qed

lemma query_limit_QStr:
  "query_limit (Some (QStr str)) = Inr (or_10 (parseInt str 10))"
  "server_js_query_limit (Some (QStr str)) = Inr (or_10 (parseInt str 0))"
  by (simp_all add: query_limit_def server_js_query_limit_def ToString_query_def)

lemma find_raises: "db_raises env \<Longrightarrow> SensorData_find env limit coll = Inl OperationError"
  by (simp add: SensorData_find_def)

subsection \<open>The sample requests\<close>

lemma stamp_example: "getISTDateTime H23 1730612345678 = ''2024-11-03, 11:09:05''"
  by code_simp

lemma id_example: "show_int 1730612345679 = ''1730612345679''"
  by code_simp

lemma make_entry_example:
  "make_entry env_db_failing body_example = Inr entry_example"
  "make_entry env_db_up body_example = Inr entry_example"
  "make_entry env_db_down body_example = Inr entry_example"
  by (simp_all add: make_entry_def body_example_def get_prop_def env_db_failing_def
      env_db_up_def env_db_down_def stamp_example id_example entry_example_def)

lemma abc_is_NaN: "StringToNumber ''abc'' = NaN"
  by code_simp

lemma make_entry_abc:
  "make_entry env_db_up body_abc = Inr entry_abc"
  by (simp add: make_entry_def body_abc_def get_prop_def
      env_db_up_def env_db_down_def stamp_example id_example entry_abc_def abc_is_NaN)

subsection \<open>Reads do not write\<close>

text \<open>
  C10. The two read handlers of both servers return the state they were given: the local
  store is the same before and after, whatever the connection and the query do, also
  when reading the limit throws.
\<close>

theorem reads_leave_buffer_unchanged:
  "sensorData (snd (get_sensor_data env q s)) = sensorData s
   \<and> sensorData (snd (get_sensor_data_latest env s)) = sensorData s
   \<and> sensorData (snd (server_js_get_sensor_data q s)) = sensorData s
   \<and> sensorData (snd (server_js_get_sensor_data_latest s)) = sensorData s
   \<and> snd (get_sensor_data env q s) = s
   \<and> snd (get_sensor_data_latest env s) = s"
  by (simp add: get_sensor_data_snd get_sensor_data_latest_snd server_js_get_sensor_data_def
      server_js_get_sensor_data_latest_def split: sum.splits)

theorem reads_leave_buffer_unchanged_witness:
  "sensorData (snd (get_sensor_data env_db_up (Some (QStr ''2''))
       \<lparr> sensorData = buffer_8, collection = [doc_b] \<rparr>)) = buffer_8
   \<and> sensorData (snd (get_sensor_data_latest env_db_failing
       \<lparr> sensorData = buffer_8, collection = [doc_b] \<rparr>)) = buffer_8"
  using reads_leave_buffer_unchanged [of env_db_up "Some (QStr ''2'')"
        "\<lparr> sensorData = buffer_8, collection = [doc_b] \<rparr>"]
    reads_leave_buffer_unchanged [of env_db_failing None
        "\<lparr> sensorData = buffer_8, collection = [doc_b] \<rparr>"]
  by simp

subsection \<open>The latest reading\<close>

text \<open>
  C5, as the code has it. \<open>GET /api/sensor-data/latest\<close>: when the connection is live,
  the query does not raise and the collection is not empty, the answer is 200 with the
  five fields of its newest document, whatever the local store holds; when the
  connection is not live, or the query raises, or the collection is empty, the answer is
  the front entry of the local store, or 404 when the local store is empty; and the
  answer is 404 exactly when the local store is empty and the database gives no document
  (not live, raising, or empty).
\<close>

theorem latest_prefers_durable:
  "(isDbConnected env \<and> \<not> db_raises env \<and> collection s = doc # docs \<longrightarrow>
      fst (get_sensor_data_latest env (s\<lparr> sensorData := buf \<rparr>))
        = Sent \<lparr> status = 200,
                 json = Single \<lparr> waterLevel = doc_waterLevel doc,
                                 temperatureCelsius = doc_temperatureCelsius doc,
                                 temperatureFahrenheit = doc_temperatureFahrenheit doc,
                                 timestamp = istTimestamp doc,
                                 id_js = doc_id doc \<rparr> \<rparr>)
   \<and> ((\<not> isDbConnected env \<or> db_raises env \<or> collection s = [])
        \<and> sensorData s = entry # rest \<longrightarrow>
      fst (get_sensor_data_latest env s) = Sent \<lparr> status = 200, json = Single entry \<rparr>)
   \<and> ((\<not> isDbConnected env \<or> db_raises env \<or> collection s = [])
        \<and> sensorData s = [] \<longrightarrow>
      fst (get_sensor_data_latest env s)
        = Sent \<lparr> status = 404, json = Failure ''No data available'' \<rparr>)
   \<and> (status_of (fst (get_sensor_data_latest env s)) = Some 404 \<longleftrightarrow>
        sensorData s = [] \<and> (\<not> isDbConnected env \<or> db_raises env \<or> collection s = []))"
proof -
  have live: "fst (get_sensor_data_latest env (s\<lparr> sensorData := buf \<rparr>))
        = Sent \<lparr> status = 200,
                 json = Single \<lparr> waterLevel = doc_waterLevel doc,
                                 temperatureCelsius = doc_temperatureCelsius doc,
                                 temperatureFahrenheit = doc_temperatureFahrenheit doc,
                                 timestamp = istTimestamp doc,
                                 id_js = doc_id doc \<rparr> \<rparr>"
    if "isDbConnected env" "\<not> db_raises env" "collection s = doc # docs"
    using that
    by (simp add: get_sensor_data_latest_def SensorData_findOne_def reading_of_doc_def)
  have fallback: "get_sensor_data_latest env s = latest_locally s"
    if "\<not> isDbConnected env \<or> db_raises env \<or> collection s = []"
    using that by (auto simp: get_sensor_data_latest_def SensorData_findOne_def)
  have front: "fst (latest_locally s) = Sent \<lparr> status = 200, json = Single entry \<rparr>"
    if "sensorData s = entry # rest"
    using that by (simp add: latest_locally_def)
  have none: "fst (latest_locally s)
        = Sent \<lparr> status = 404, json = Failure ''No data available'' \<rparr>"
    if "sensorData s = []"
    using that by (simp add: latest_locally_def)
  have "status_of (fst (get_sensor_data_latest env s)) = Some 404 \<longleftrightarrow>
        sensorData s = [] \<and> (\<not> isDbConnected env \<or> db_raises env \<or> collection s = [])"
    by (auto simp: get_sensor_data_latest_def SensorData_findOne_def latest_locally_def
        split: list.splits)
  with live fallback front none show ?thesis by metis
qed

theorem latest_prefers_durable_witness:
  "fst (get_sensor_data_latest env_db_up \<lparr> sensorData = [reading_a], collection = [doc_b] \<rparr>)
     = Sent \<lparr> status = 200,
              json = Single \<lparr> waterLevel = Fin 9, temperatureCelsius = Fin 22,
                              temperatureFahrenheit = Fin (358 / 5),
                              timestamp = ''2024-11-03, 11:10:00'',
                              id_js = ''6727a1b2c3d4e5f601234567'' \<rparr> \<rparr>
   \<and> fst (get_sensor_data_latest env_db_failing \<lparr> sensorData = [reading_a], collection = [doc_b] \<rparr>)
     = Sent \<lparr> status = 200, json = Single reading_a \<rparr>
   \<and> fst (get_sensor_data_latest env_db_up state_empty)
     = Sent \<lparr> status = 404, json = Failure ''No data available'' \<rparr>
   \<and> status_of (fst (get_sensor_data_latest env_db_up
         \<lparr> sensorData = [], collection = [doc_b] \<rparr>)) \<noteq> Some 404"
proof -
  have up: "isDbConnected env_db_up" "\<not> db_raises env_db_up"
    by (simp_all add: isDbConnected_def env_db_up_def env_db_down_def)
  have failing: "db_raises env_db_failing"
    by (simp add: env_db_failing_def env_db_down_def)
  have e: "sensorData state_empty = []" "collection state_empty = []"
    by (simp_all add: state_empty_def)
  have d: "doc_waterLevel doc_b = Fin 9" "doc_temperatureCelsius doc_b = Fin 22"
    "doc_temperatureFahrenheit doc_b = Fin (358 / 5)"
    "istTimestamp doc_b = ''2024-11-03, 11:10:00''" "doc_id doc_b = ''6727a1b2c3d4e5f601234567''"
    by (simp_all add: doc_b_def)
  have 1: "fst (get_sensor_data_latest env_db_up \<lparr> sensorData = [reading_a], collection = [doc_b] \<rparr>)
     = Sent \<lparr> status = 200,
              json = Single \<lparr> waterLevel = Fin 9, temperatureCelsius = Fin 22,
                              temperatureFahrenheit = Fin (358 / 5),
                              timestamp = ''2024-11-03, 11:10:00'',
                              id_js = ''6727a1b2c3d4e5f601234567'' \<rparr> \<rparr>"
    using up latest_prefers_durable [of env_db_up "\<lparr> sensorData = [], collection = [doc_b] \<rparr>"
        doc_b "[]" "[reading_a]" reading_a "[]"]
    by (simp add: d)
  have 2: "fst (get_sensor_data_latest env_db_failing \<lparr> sensorData = [reading_a], collection = [doc_b] \<rparr>)
     = Sent \<lparr> status = 200, json = Single reading_a \<rparr>"
    using failing latest_prefers_durable [of env_db_failing
        "\<lparr> sensorData = [reading_a], collection = [doc_b] \<rparr>" doc_b "[]" "[]" reading_a "[]"]
    by simp
  have 3: "fst (get_sensor_data_latest env_db_up state_empty)
     = Sent \<lparr> status = 404, json = Failure ''No data available'' \<rparr>"
    using e latest_prefers_durable [of env_db_up state_empty doc_b "[]" "[]" reading_a "[]"]
    by blast
  have 4: "status_of (fst (get_sensor_data_latest env_db_up
         \<lparr> sensorData = [], collection = [doc_b] \<rparr>)) \<noteq> Some 404"
    using up latest_prefers_durable [of env_db_up "\<lparr> sensorData = [], collection = [doc_b] \<rparr>"
        doc_b "[]" "[]" reading_a "[]"]
    by simp
  from 1 2 3 4 show ?thesis by blast
qed

text \<open>
  C5 as stated fails where the database holds documents and cannot be reached: with the
  connection down, or the query raising, and the local store empty, the answer is 404
  although a reading exists in the collection.
\<close>

theorem latest_404_with_documents_cex:
  "get_sensor_data_latest env_db_down \<lparr> sensorData = [], collection = [doc_b] \<rparr>
     = (Sent \<lparr> status = 404, json = Failure ''No data available'' \<rparr>,
        \<lparr> sensorData = [], collection = [doc_b] \<rparr>)
   \<and> get_sensor_data_latest env_db_failing \<lparr> sensorData = [], collection = [doc_b] \<rparr>
     = (Sent \<lparr> status = 404, json = Failure ''No data available'' \<rparr>,
        \<lparr> sensorData = [], collection = [doc_b] \<rparr>)
   \<and> collection \<lparr> sensorData = [], collection = [doc_b] \<rparr> \<noteq> []"
  by (simp add: get_sensor_data_latest_def isDbConnected_def env_db_down_def
      env_db_failing_def SensorData_findOne_def latest_locally_def)

subsection \<open>Failures of the database\<close>

text \<open>
  C1. When the three fields are present, the entry is built, the connection is live and
  \<open>SensorData.create\<close> fails, the create handler puts the entry it had already stamped
  into the local store, leaves the collection alone and answers 200; when \<open>find\<close>
  fails the list handler answers 200 with the local readings; and no answer of either
  handler has a status other than 200, or 400 for a missing field.
\<close>

theorem durable_failure_never_surfaces:
  "(\<not> missing_fields body \<and> make_entry env body = Inr entry \<and> isDbConnected env
     \<and> SensorData_create env (waterLevel entry) (temperatureCelsius entry)
          (temperatureFahrenheit entry) (timestamp entry) (collection s) = Inl err \<longrightarrow>
       post_sensor_data env body s
         = (Sent \<lparr> status = 200, json = Stored ''Data stored locally (fallback)'' entry \<rparr>,
            s\<lparr> sensorData := local_insert entry (sensorData s) \<rparr>))
   \<and> (query_limit q = Inr limit \<and> isDbConnected env
       \<and> SensorData_find env limit (collection s) = Inl err' \<longrightarrow>
       get_sensor_data env q s
         = (Sent \<lparr> status = 200, json = Listing (slice0 (sensorData s) limit) \<rparr>, s))
   \<and> (status_of (fst (post_sensor_data env body s)) = Some st \<longrightarrow>
        st = 200 \<or> st = 400 \<and> missing_fields body)
   \<and> (status_of (fst (get_sensor_data env q s)) = Some st \<longrightarrow> st = 200)"
proof -
  have create: "post_sensor_data env body s
         = (Sent \<lparr> status = 200, json = Stored ''Data stored locally (fallback)'' entry \<rparr>,
            s\<lparr> sensorData := local_insert entry (sensorData s) \<rparr>)"
    if "\<not> missing_fields body" "make_entry env body = Inr entry" "isDbConnected env"
      "SensorData_create env (waterLevel entry) (temperatureCelsius entry)
          (temperatureFahrenheit entry) (timestamp entry) (collection s) = Inl err"
    using post_local [OF that(1,2), of s] that(4) by (simp add: store_locally_def)
  have list: "get_sensor_data env q s
         = (Sent \<lparr> status = 200, json = Listing (slice0 (sensorData s) limit) \<rparr>, s)"
    if "query_limit q = Inr limit" "isDbConnected env"
      "SensorData_find env limit (collection s) = Inl err'"
    using that by (simp add: get_sensor_data_def list_locally_def)
  have post_status: "st = 200 \<or> st = 400 \<and> missing_fields body"
    if "status_of (fst (post_sensor_data env body s)) = Some st"
    using that by (cases env body s rule: post_cases) auto
  have get_status: "st = 200" if "status_of (fst (get_sensor_data env q s)) = Some st"
    using that by (cases rule: get_cases [where q = q and env = env and s = s]) auto
  from create list post_status get_status show ?thesis by blast
qed


theorem durable_failure_never_surfaces_witness:
  "post_sensor_data env_db_failing body_example state_empty
     = (Sent \<lparr> status = 200, json = Stored ''Data stored locally (fallback)'' entry_example \<rparr>,
        \<lparr> sensorData = [entry_example], collection = [] \<rparr>)
   \<and> get_sensor_data env_db_failing None \<lparr> sensorData = [reading_a], collection = [doc_b] \<rparr>
     = (Sent \<lparr> status = 200, json = Listing [reading_a] \<rparr>,
        \<lparr> sensorData = [reading_a], collection = [doc_b] \<rparr>)"
proof -
  have c: "isDbConnected env_db_failing"
    by (simp add: isDbConnected_def env_db_failing_def env_db_down_def)
  have m: "\<not> missing_fields body_example"
    by (simp add: missing_fields_def is_missing_def get_prop_def body_example_def)
  have f: "SensorData_create env_db_failing (waterLevel entry_example)
      (temperatureCelsius entry_example) (temperatureFahrenheit entry_example)
      (timestamp entry_example) (collection state_empty) = Inl OperationError"
    by (simp add: SensorData_create_def entry_example_def env_db_failing_def env_db_down_def)
  have g: "SensorData_find env_db_failing (PInt 10)
      (collection \<lparr> sensorData = [reading_a], collection = [doc_b] \<rparr>) = Inl OperationError"
    by (simp add: SensorData_find_def env_db_failing_def env_db_down_def)
  have i: "local_insert entry_example [] = [entry_example]"
    by (simp add: local_insert_def)
  have s: "slice0 [reading_a] (PInt 10) = [reading_a]" by (simp add: slice0_def)
  have post: "post_sensor_data env_db_failing body_example state_empty
     = (Sent \<lparr> status = 200, json = Stored ''Data stored locally (fallback)'' entry_example \<rparr>,
        state_empty\<lparr> sensorData := local_insert entry_example (sensorData state_empty) \<rparr>)"
    using c m f make_entry_example(1)
      durable_failure_never_surfaces [of body_example env_db_failing entry_example state_empty
        OperationError None "PInt 10" OperationError 200]
    by blast
  have get: "get_sensor_data env_db_failing None \<lparr> sensorData = [reading_a], collection = [doc_b] \<rparr>
     = (Sent \<lparr> status = 200,
               json = Listing (slice0 (sensorData \<lparr> sensorData = [reading_a], collection = [doc_b] \<rparr>)
                 (PInt 10)) \<rparr>,
        \<lparr> sensorData = [reading_a], collection = [doc_b] \<rparr>)"
    using c g query_limit_None(1)
      durable_failure_never_surfaces [of body_example env_db_failing entry_example
        "\<lparr> sensorData = [reading_a], collection = [doc_b] \<rparr>"
        OperationError None "PInt 10" OperationError 200]
    by blast
  show ?thesis
    unfolding post get by (simp add: i s state_empty_def)
qed

subsection \<open>The limit of the list\<close>

text \<open>
  C6. The claim has a non-positive limit replaced by 10. The code replaces zero, but not a
  negative limit: with \<open>limit=-5\<close> the limit is \<open>-5\<close> in both servers, and over a local
  store of eight readings \<open>slice(0, -5)\<close> answers with the three newest, all but the last
  five, where a limit of 10 answers with all eight.
\<close>

theorem negative_limit_not_defaulted:
  "query_limit (Some (QStr ''-5'')) = Inr (PInt (- 5))
   \<and> server_js_query_limit (Some (QStr ''-5'')) = Inr (PInt (- 5))
   \<and> fst (get_sensor_data env_db_down (Some (QStr ''-5''))
           \<lparr> sensorData = buffer_8, collection = [] \<rparr>)
       = Sent \<lparr> status = 200,
                json = Listing [sample_reading 8, sample_reading 7, sample_reading 6] \<rparr>
   \<and> fst (server_js_get_sensor_data (Some (QStr ''-5''))
           \<lparr> sensorData = buffer_8, collection = [] \<rparr>)
       = Sent \<lparr> status = 200,
                json = Listing [sample_reading 8, sample_reading 7, sample_reading 6] \<rparr>
   \<and> fst (get_sensor_data env_db_down (Some (QStr ''0''))
           \<lparr> sensorData = buffer_8, collection = [] \<rparr>)
       = Sent \<lparr> status = 200, json = Listing buffer_8 \<rparr>
   \<and> fst (get_sensor_data env_db_down (Some (QStr ''10''))
           \<lparr> sensorData = buffer_8, collection = [] \<rparr>)
       = Sent \<lparr> status = 200, json = Listing buffer_8 \<rparr>"
proof -
  have p: "parseInt ''-5'' 10 = PInt (- 5)" "parseInt ''-5'' 0 = PInt (- 5)"
    "parseInt ''0'' 10 = PInt 0" "parseInt ''10'' 10 = PInt 10"
    by code_simp+
  have q: "query_limit (Some (QStr ''-5'')) = Inr (PInt (- 5))"
    "server_js_query_limit (Some (QStr ''-5'')) = Inr (PInt (- 5))"
    "query_limit (Some (QStr ''0'')) = Inr (PInt 10)"
    "query_limit (Some (QStr ''10'')) = Inr (PInt 10)"
    by (simp_all add: query_limit_QStr p or_10_def)
  have d: "\<not> isDbConnected env_db_down" by (simp add: isDbConnected_def env_db_down_def)
  have l: "length buffer_8 = 8" by (simp add: buffer_8_def)
  have s: "slice0 buffer_8 (PInt (- 5)) = [sample_reading 8, sample_reading 7, sample_reading 6]"
    by (simp add: slice0_def buffer_8_def)
  have t: "slice0 buffer_8 (PInt 10) = buffer_8"
    by (simp add: slice0_def l)
  show ?thesis
    by (simp add: q get_sensor_data_def server_js_get_sensor_data_def d list_locally_def s t)
qed

subsection \<open>Values that are not numbers\<close>

text \<open>
  C9, as the code has it. A body whose three fields are present and on which
  \<open>Number\<close> returns is answered with 200, and the reading stored (in the local store,
  or as a document of the collection) carries the three results of \<open>Number\<close>; a reading
  with a NaN always goes to the local store, since the schema refuses it; and
  \<open>Number("abc")\<close> is NaN. Validation looks at presence alone.
\<close>

theorem present_fields_stored_as_coerced:
  assumes "\<not> missing_fields body" and "make_entry env body = Inr entry"
  shows "Number_js (get_prop body ''waterLevel'') = Inr (waterLevel entry)
     \<and> Number_js (get_prop body ''temperatureCelsius'') = Inr (temperatureCelsius entry)
     \<and> Number_js (get_prop body ''temperatureFahrenheit'') = Inr (temperatureFahrenheit entry)
     \<and> status_of (fst (post_sensor_data env body s)) = Some 200
     \<and> (snd (post_sensor_data env body s)
           = s\<lparr> sensorData := local_insert entry (sensorData s) \<rparr>
         \<or> (\<exists>doc. snd (post_sensor_data env body s) = s\<lparr> collection := doc # collection s \<rparr>
               \<and> doc_waterLevel doc = waterLevel entry
               \<and> doc_temperatureCelsius doc = temperatureCelsius entry
               \<and> doc_temperatureFahrenheit doc = temperatureFahrenheit entry))
     \<and> (waterLevel entry = NaN \<or> temperatureCelsius entry = NaN
          \<or> temperatureFahrenheit entry = NaN \<longrightarrow>
          post_sensor_data env body s
            = (Sent \<lparr> status = 200, json = Stored ''Data stored locally (fallback)'' entry \<rparr>,
               s\<lparr> sensorData := local_insert entry (sensorData s) \<rparr>))
     \<and> server_js_post_sensor_data env body s
          = (Sent \<lparr> status = 200, json = Stored ''Data stored successfully'' entry \<rparr>,
             s\<lparr> sensorData := local_insert entry (sensorData s) \<rparr>)
     \<and> Number_js (JStr ''abc'') = Inr NaN"
proof -
  note fields = make_entry_fields(1-3) [OF assms(2)]
  have js: "server_js_post_sensor_data env body s
          = (Sent \<lparr> status = 200, json = Stored ''Data stored successfully'' entry \<rparr>,
             s\<lparr> sensorData := local_insert entry (sensorData s) \<rparr>)"
    using assms by (simp add: server_js_post_sensor_data_def store_locally_def)
  have abc: "Number_js (JStr ''abc'') = Inr NaN" by (simp add: abc_is_NaN)
  have db: "status_of (fst (post_sensor_data env body s)) = Some 200
     \<and> (snd (post_sensor_data env body s)
           = s\<lparr> sensorData := local_insert entry (sensorData s) \<rparr>
         \<or> (\<exists>doc. snd (post_sensor_data env body s) = s\<lparr> collection := doc # collection s \<rparr>
               \<and> doc_waterLevel doc = waterLevel entry
               \<and> doc_temperatureCelsius doc = temperatureCelsius entry
               \<and> doc_temperatureFahrenheit doc = temperatureFahrenheit entry))
     \<and> (waterLevel entry = NaN \<or> temperatureCelsius entry = NaN
          \<or> temperatureFahrenheit entry = NaN \<longrightarrow>
          post_sensor_data env body s
            = (Sent \<lparr> status = 200, json = Stored ''Data stored locally (fallback)'' entry \<rparr>,
               s\<lparr> sensorData := local_insert entry (sensorData s) \<rparr>))"
  proof (cases env body s rule: post_cases)
    case missing
    with assms(1) show ?thesis by simp
  next
    case (thrown e)
    with assms(2) show ?thesis by simp
  next
    case (local entry')
    with assms(2) show ?thesis by (simp add: store_locally_def)
  next
    case (db entry' doc coll)
    with assms(2) have e: "entry' = entry" by simp
    note c = create_doc [OF db(4) [unfolded e]]
    have "doc_waterLevel doc = waterLevel entry"
      "doc_temperatureCelsius doc = temperatureCelsius entry"
      "doc_temperatureFahrenheit doc = temperatureFahrenheit entry"
      using c(1) by (simp_all add: reading_of_doc_def)
    with c(2-5) db(5) show ?thesis by auto
  qed
  from fields js abc db show ?thesis by blast
qed

theorem present_fields_stored_as_coerced_witness:
  "post_sensor_data env_db_up body_abc state_empty
     = (Sent \<lparr> status = 200, json = Stored ''Data stored locally (fallback)'' entry_abc \<rparr>,
        \<lparr> sensorData = [entry_abc], collection = [] \<rparr>)
   \<and> waterLevel entry_abc = NaN
   \<and> Number_js (get_prop body_abc ''waterLevel'') = Inr NaN"
proof -
  have m: "\<not> missing_fields body_abc"
    by (simp add: missing_fields_def is_missing_def get_prop_def body_abc_def)
  have n: "waterLevel entry_abc = NaN" by (simp add: entry_abc_def)
  have i: "local_insert entry_abc [] = [entry_abc]" by (simp add: local_insert_def)
  from present_fields_stored_as_coerced [OF m make_entry_abc, of state_empty] n
  show ?thesis by (simp add: i state_empty_def)
qed

text \<open>
  C9 as stated fails where \<open>Number\<close> throws: an object with an own property
  \<open>toString\<close> is present and not numeric, and the handler throws a TypeError instead
  of answering 200.
\<close>

theorem present_field_throws_cex:
  "\<not> missing_fields body_to_string_object
   \<and> post_sensor_data env_db_down body_to_string_object state_empty
       = (Thrown TypeError, state_empty)
   \<and> server_js_post_sensor_data env_db_down body_to_string_object state_empty
       = (Thrown TypeError, state_empty)
   \<and> status_of (fst (post_sensor_data env_db_down body_to_string_object state_empty))
       \<noteq> Some 200"
proof -
  have m: "\<not> missing_fields body_to_string_object"
    by (simp add: missing_fields_def is_missing_def get_prop_def body_to_string_object_def)
  have e: "make_entry env_db_down body_to_string_object = Inl TypeError"
    by (simp add: make_entry_def get_prop_def body_to_string_object_def)
  show ?thesis
    by (simp add: m e post_sensor_data_def server_js_post_sensor_data_def)
qed

subsection \<open>The local store\<close>

lemma take_append_take: "take n (xs @ take n ys) = take n (xs @ ys)"
  by (simp add: min_def)

lemma local_insert_take: "local_insert e xs = take 100 (e # xs)"
  by (simp add: local_insert_def Let_def)

lemma insert_all_take:
  "length xs \<le> 100 \<Longrightarrow> insert_all es xs = take 100 (rev es @ xs)"
proof (induction es arbitrary: xs)
  case Nil
  then show ?case by (simp add: insert_all_def)
next
  case (Cons e es)
  have len: "length (local_insert e xs) \<le> 100" by (simp add: local_insert_take)
  have "insert_all (e # es) xs = insert_all es (local_insert e xs)"
    by (simp add: insert_all_def)
  also have "\<dots> = take 100 (rev es @ take 100 (e # xs))"
    using Cons.IH [OF len] by (simp add: local_insert_take)
  also have "\<dots> = take 100 (rev es @ e # xs)"
    by (rule take_append_take)
  finally show ?case by simp
qed

lemma post_buffer_bound:
  "length (sensorData s) \<le> 100 \<Longrightarrow> length (sensorData (snd (post_sensor_data env body s))) \<le> 100"
  by (cases env body s rule: post_cases) (auto simp: local_insert_take)

lemma handle_buffer_bound:
  "length (sensorData s) \<le> 100 \<Longrightarrow> length (sensorData (snd (handle env req s))) \<le> 100"
  by (cases req) (simp_all add: post_buffer_bound get_sensor_data_snd get_sensor_data_latest_snd)

lemma run_buffer_bound:
  "length (sensorData s) \<le> 100 \<Longrightarrow> length (sensorData (run reqs s)) \<le> 100"
proof (induction reqs arbitrary: s)
  case Nil
  then show ?case by simp
next
  case (Cons r reqs)
  obtain env req where r: "r = (env, req)" by (cases r)
  from Cons.prems have "length (sensorData (snd (handle env req s))) \<le> 100"
    by (rule handle_buffer_bound)
  then show ?case unfolding r by (simp add: Cons.IH)
qed

text \<open>
  C3. After any sequence of inserts into the empty local store, the store holds the last
  100 readings inserted at most, newest first; from any store of at most 100 readings
  the same holds with the older readings behind; after 101 inserts the store is the last
  100 readings, newest first, and the first reading inserted is not in it (when the
  readings are distinct); and no sequence of requests takes the store over 100 readings.
\<close>

theorem local_buffer_capped_newest_first:
  "insert_all es [] = take 100 (rev es)
   \<and> length (insert_all es []) \<le> 100
   \<and> (length xs \<le> 100 \<longrightarrow>
        insert_all es xs = take 100 (rev es @ xs) \<and> length (insert_all es xs) \<le> 100)
   \<and> (length es = 101 \<longrightarrow>
        insert_all es [] = rev (tl es) \<and> length (insert_all es []) = 100
        \<and> (distinct es \<longrightarrow> hd es \<notin> set (insert_all es [])))
   \<and> (length (sensorData s) \<le> 100 \<longrightarrow> length (sensorData (run reqs s)) \<le> 100)"
proof -
  have e: "insert_all es [] = take 100 (rev es)"
    using insert_all_take [of "[]" es] by simp
  have g: "insert_all es xs = take 100 (rev es @ xs) \<and> length (insert_all es xs) \<le> 100"
    if "length xs \<le> 100"
    using insert_all_take [OF that, of es] by simp
  have l: "insert_all es [] = rev (tl es) \<and> length (insert_all es []) = 100
        \<and> (distinct es \<longrightarrow> hd es \<notin> set (insert_all es []))"
    if len: "length es = 101"
  proof -
    obtain x rest where es: "es = x # rest" using len by (cases es) auto
    with len have r: "length rest = 100" by simp
    have "take 100 (rev es) = rev rest" using r by (simp add: es)
    with e have i: "insert_all es [] = rev rest" by simp
    show ?thesis unfolding i using r by (auto simp: es)
  qed
  have b: "length (insert_all es []) \<le> 100" by (simp add: e)
  from e b g l run_buffer_bound [of s reqs] show ?thesis by blast
qed


lemma upto_1_101: "[1..101] = 1 # [2..101]"
  by (simp add: upto_rec1)

lemma sample_reading_inj: "inj sample_reading"
  by (auto simp: inj_on_def sample_reading_def)

theorem local_buffer_capped_newest_first_witness:
  "insert_all (map sample_reading [1..101]) [] = rev (map sample_reading [2..101])
   \<and> length (insert_all (map sample_reading [1..101]) []) = 100
   \<and> sample_reading 1 \<notin> set (insert_all (map sample_reading [1..101]) [])
   \<and> length (sensorData (run [(env_db_down, PostSensorData body_example)] state_empty)) \<le> 100"
proof -
  define es where "es = map sample_reading [1..101]"
  have len: "length es = 101" by (simp add: es_def)
  have d: "distinct es"
    by (simp add: es_def distinct_map inj_on_subset [OF sample_reading_inj])
  have s: "length (sensorData state_empty) \<le> 100" by (simp add: state_empty_def)
  have h: "hd es = sample_reading 1" and t: "tl es = map sample_reading [2..101]"
    by (simp_all only: es_def upto_1_101 list.map list.sel)
  from local_buffer_capped_newest_first [of es "[]" state_empty
      "[(env_db_down, PostSensorData body_example)]"] len d s
  have "insert_all es [] = rev (tl es) \<and> length (insert_all es []) = 100
    \<and> hd es \<notin> set (insert_all es [])
    \<and> length (sensorData (run [(env_db_down, PostSensorData body_example)] state_empty)) \<le> 100"
    by blast
  then show ?thesis unfolding h t unfolding es_def .
qed


subsection \<open>A session without the database\<close>

lemma create_raises:
  "db_raises env \<Longrightarrow> \<exists>err. SensorData_create env wl tc tf ts coll = Inl err"
  by (simp add: SensorData_create_def)

lemma post_unreachable:
  assumes "unreachable env" "valid_create (env, body)"
  shows "\<exists>entry. entry_of (env, body) = [entry]
           \<and> snd (post_sensor_data env body s)
               = s\<lparr> sensorData := local_insert entry (sensorData s) \<rparr>"
proof -
  from assms(2) obtain entry where m: "\<not> missing_fields body" and e: "make_entry env body = Inr entry"
    by (auto simp: valid_create_def split: sum.splits)
  have "\<not> isDbConnected env
         \<or> (\<exists>err. SensorData_create env (waterLevel entry) (temperatureCelsius entry)
                (temperatureFahrenheit entry) (timestamp entry) (collection s) = Inl err)"
    using assms(1) create_raises by (auto simp: unreachable_def)
  from post_local [OF m e this] e show ?thesis by (simp add: entry_of_def)
qed

lemma run_creates_unreachable:
  assumes "list_all (\<lambda>p. unreachable (fst p) \<and> valid_create p) posts"
  shows "run (creates posts) s
           = s\<lparr> sensorData := insert_all (concat (map entry_of posts)) (sensorData s) \<rparr>
         \<and> length (concat (map entry_of posts)) = length posts"
  using assms
proof (induction posts arbitrary: s)
  case Nil
  then show ?case by (simp add: creates_def insert_all_def)
next
  case (Cons p posts)
  obtain env body where p: "p = (env, body)" by (cases p)
  from Cons.prems have u: "unreachable env" "valid_create (env, body)"
    and rest: "list_all (\<lambda>p. unreachable (fst p) \<and> valid_create p) posts"
    by (simp_all add: p)
  from post_unreachable [OF u, of s] obtain entry where e: "entry_of (env, body) = [entry]"
    and st: "snd (post_sensor_data env body s)
               = s\<lparr> sensorData := local_insert entry (sensorData s) \<rparr>"
    by blast
  have "run (creates (p # posts)) s = run (creates posts) (snd (post_sensor_data env body s))"
    by (simp add: creates_def p)
  with Cons.IH [OF rest, of "snd (post_sensor_data env body s)"] e st
  show ?case by (simp add: p insert_all_def)
qed

lemma get_unreachable:
  assumes "unreachable env" "query_limit q = Inr limit"
  shows "get_sensor_data env q s = list_locally limit s"
  using assms by (auto simp: unreachable_def get_sensor_data_def find_raises)

lemma make_entry_zero_negative:
  "make_entry env_db_failing body_zero_negative = Inr entry_zero_negative"
  by (simp add: make_entry_def body_zero_negative_def get_prop_def env_db_failing_def
      env_db_down_def stamp_example id_example entry_zero_negative_def)

lemma unreachable_samples: "unreachable env_db_down" "unreachable env_db_failing"
  by (simp_all add: unreachable_def isDbConnected_def env_db_down_def env_db_failing_def)

lemma valid_create_samples:
  "valid_create (env_db_down, body_example)" "entry_of (env_db_down, body_example) = [entry_example]"
  "valid_create (env_db_failing, body_zero_negative)"
  "entry_of (env_db_failing, body_zero_negative) = [entry_zero_negative]"
proof -
  have m: "\<not> missing_fields body_example" "\<not> missing_fields body_zero_negative"
    by (simp_all add: missing_fields_def is_missing_def get_prop_def body_example_def
        body_zero_negative_def)
  show "valid_create (env_db_down, body_example)"
    "entry_of (env_db_down, body_example) = [entry_example]"
    "valid_create (env_db_failing, body_zero_negative)"
    "entry_of (env_db_failing, body_zero_negative) = [entry_zero_negative]"
    by (simp_all add: valid_create_def entry_of_def make_entry_example make_entry_zero_negative m)
qed

text \<open>
  C7, as the code has it. With the database unreachable for every request and the local
  store empty at the start, N valid creates with N at most 100, followed by a list with
  limit N, are answered with exactly the N readings created, the last one first; they
  are the local store, and the collection is as it was.
\<close>

theorem unreachable_session_lists_creates:
  assumes "list_all (\<lambda>p. unreachable (fst p) \<and> valid_create p) posts"
    and "length posts \<le> 100"
    and "unreachable env"
    and "sensorData s = []"
  shows "fst (get_sensor_data env (Some (QStr (show_int (int (length posts)))))
              (run (creates posts) s))
           = Sent \<lparr> status = 200, json = Listing (rev (concat (map entry_of posts))) \<rparr>
       \<and> length (concat (map entry_of posts)) = length posts
       \<and> sensorData (run (creates posts) s) = rev (concat (map entry_of posts))
       \<and> collection (run (creates posts) s) = collection s"
proof -
  define entries where "entries = concat (map entry_of posts)"
  define n where "n = int (length posts)"
  from run_creates_unreachable [OF assms(1), of s]
  have r: "run (creates posts) s = s\<lparr> sensorData := insert_all entries [] \<rparr>"
    and len: "length entries = length posts"
    by (simp_all add: entries_def assms(4))
  have buf: "insert_all entries [] = rev entries"
    using insert_all_take [of "[]" entries] len assms(2) by simp
  have small: "\<bar>n\<bar> < 2 ^ 53" using assms(2) by (simp add: n_def)
  have lim: "query_limit (Some (QStr (show_int n))) = Inr (if n = 0 then PInt 10 else PInt n)"
    by (simp add: query_limit_QStr parseInt_show_int [OF _ small] or_10_def)
  have sl: "slice0 (rev entries) (if n = 0 then PInt 10 else PInt n) = rev entries"
    using len by (auto simp: slice0_def n_def Let_def)
  have "fst (get_sensor_data env (Some (QStr (show_int n))) (run (creates posts) s))
      = Sent \<lparr> status = 200, json = Listing (rev entries) \<rparr>"
    unfolding get_unreachable [OF assms(3) lim] r by (simp add: buf sl)
  moreover have "sensorData (run (creates posts) s) = rev entries"
    "collection (run (creates posts) s) = collection s"
    by (simp_all add: r buf)
  ultimately show ?thesis
    unfolding entries_def [symmetric] n_def [symmetric] using len by blast
qed

theorem unreachable_session_lists_creates_witness:
  "fst (get_sensor_data env_db_failing (Some (QStr ''2'')) (run (creates posts_2) state_empty))
     = Sent \<lparr> status = 200, json = Listing [entry_zero_negative, entry_example] \<rparr>
   \<and> sensorData (run (creates posts_2) state_empty) = [entry_zero_negative, entry_example]"
proof -
  have p: "list_all (\<lambda>p. unreachable (fst p) \<and> valid_create p) posts_2"
    by (simp add: posts_2_def unreachable_samples valid_create_samples)
  have l: "length posts_2 \<le> 100" by (simp add: posts_2_def)
  have s: "sensorData state_empty = []" by (simp add: state_empty_def)
  have n: "show_int (int (length posts_2)) = ''2''"
    unfolding posts_2_def by code_simp
  have e: "rev (concat (map entry_of posts_2)) = [entry_zero_negative, entry_example]"
    by (simp add: posts_2_def valid_create_samples)
  from unreachable_session_lists_creates [OF p l unreachable_samples(2) s]
  show ?thesis unfolding n e by blast
qed

lemma concat_replicate_single: "concat (replicate n [x]) = replicate n x"
  by (induction n) simp_all

text \<open>
  C7 as stated fails for N over 100: after 101 creates the list with limit 101 is
  answered with 100 readings, the store having dropped the first.
\<close>

theorem unreachable_session_cex:
  "fst (get_sensor_data env_db_down (Some (QStr ''101'')) (run (creates posts_101) state_empty))
     = Sent \<lparr> status = 200, json = Listing (replicate 100 entry_example) \<rparr>
   \<and> concat (map entry_of posts_101) = replicate 101 entry_example"
proof -
  have p: "list_all (\<lambda>p. unreachable (fst p) \<and> valid_create p) posts_101"
    by (simp add: posts_101_def list_all_iff unreachable_samples valid_create_samples)
  have e: "concat (map entry_of posts_101) = replicate 101 entry_example"
    by (simp add: posts_101_def valid_create_samples concat_replicate_single)
  have b: "insert_all (replicate 101 entry_example) [] = replicate 100 entry_example"
    using insert_all_take [of "[]" "replicate 101 entry_example"] by simp
  have r: "run (creates posts_101) state_empty
      = \<lparr> sensorData = replicate 100 entry_example, collection = [] \<rparr>"
    using run_creates_unreachable [OF p, of state_empty] by (simp add: e b state_empty_def)
  have q: "parseInt ''101'' 10 = PInt 101" by code_simp
  have l: "query_limit (Some (QStr ''101'')) = Inr (PInt 101)"
    by (simp add: query_limit_QStr q or_10_def)
  have g: "fst (get_sensor_data env_db_down (Some (QStr ''101''))
                 \<lparr> sensorData = replicate 100 entry_example, collection = [] \<rparr>)
      = Sent \<lparr> status = 200, json = Listing (replicate 100 entry_example) \<rparr>"
    unfolding get_unreachable [OF unreachable_samples(1) l]
    by (simp add: slice0_def)
  show ?thesis unfolding r using g e by blast
qed

subsection \<open>The calendar\<close>

lemma century_rem:
  fixes r :: int
  assumes "0 \<le> r" "r \<le> 146096"
  shows "0 \<le> min (r div 36524) 3" "min (r div 36524) 3 \<le> 3"
    "0 \<le> r - min (r div 36524) 3 * 36524" "r - min (r div 36524) 3 * 36524 \<le> 36524"
  using assms by (auto simp: min_def)

lemma year_rem:
  fixes r :: int
  assumes "0 \<le> r" "r \<le> 1460"
  shows "0 \<le> min (r div 365) 3" "min (r div 365) 3 \<le> 3"
    "0 \<le> r - min (r div 365) 3 * 365" "r - min (r div 365) 3 * 365 \<le> 365"
  using assms by (auto simp: min_def)

lemma march_year_day_props:
  fixes z :: int
  defines "y \<equiv> fst (march_year_day z)" and "doy \<equiv> snd (march_year_day z)"
  shows "0 \<le> doy" "doy \<le> 365"
    "365 * y + y div 4 - y div 100 + y div 400 + doy = z"
proof -
  define n400 where "n400 = z div 146097"
  define r where "r = z mod 146097"
  define n100 where "n100 = min (r div 36524) 3"
  define r2 where "r2 = r - n100 * 36524"
  define n4 where "n4 = r2 div 1461"
  define r3 where "r3 = r2 mod 1461"
  define n1 where "n1 = min (r3 div 365) 3"
  have y: "y = 400 * n400 + 100 * n100 + 4 * n4 + n1"
    by (simp add: y_def march_year_day_def Let_def n400_def r_def n100_def r2_def n4_def r3_def n1_def)
  have doy: "doy = r3 - n1 * 365"
    by (simp add: doy_def march_year_day_def Let_def n400_def r_def n100_def r2_def n4_def r3_def n1_def)
  have r: "0 \<le> r" "r \<le> 146096" by (simp_all add: r_def)
  have z: "z = 146097 * n400 + r" by (simp add: n400_def r_def)
  have n100: "0 \<le> n100" "n100 \<le> 3" and r2: "0 \<le> r2" "r2 \<le> 36524"
    using century_rem [OF r] by (simp_all add: n100_def r2_def)
  have n4: "0 \<le> n4" "n4 \<le> 24" using r2 by (simp_all add: n4_def)
  have r3: "0 \<le> r3" "r3 \<le> 1460" by (simp_all add: r3_def)
  have r2_eq: "r2 = 1461 * n4 + r3" by (simp add: n4_def r3_def)
  have n1: "0 \<le> n1" "n1 \<le> 3" and d: "0 \<le> r3 - n1 * 365" "r3 - n1 * 365 \<le> 365"
    using year_rem [OF r3] by (simp_all add: n1_def)
  show "0 \<le> doy" "doy \<le> 365" using d by (simp_all add: doy)
  have d4: "y div 4 = 100 * n400 + 25 * n100 + n4"
  proof -
    have "y = 4 * (100 * n400 + 25 * n100 + n4) + n1" by (simp add: y)
    then show ?thesis using n1 by simp
  qed
  have d100: "y div 100 = 4 * n400 + n100"
  proof -
    have "y = 100 * (4 * n400 + n100) + (4 * n4 + n1)" by (simp add: y)
    then show ?thesis using n1 n4 by simp
  qed
  have d400: "y div 400 = n400"
  proof -
    have "y = 400 * n400 + (100 * n100 + 4 * n4 + n1)" by (simp add: y)
    then show ?thesis using n1 n4 n100 by simp
  qed
  show "365 * y + y div 4 - y div 100 + y div 400 + doy = z"
    unfolding d4 d100 d400 doy z using r2_eq by (simp add: r2_def y)
qed


lemma month_day_props:
  fixes doy :: int
  assumes "0 \<le> doy" "doy \<le> 365"
  defines "m \<equiv> fst (month_day doy)" and "d \<equiv> snd (month_day doy)"
  shows "1 \<le> m" "m \<le> 12" "1 \<le> d" "d \<le> 31"
    "(153 * (if m \<le> 2 then m + 9 else m - 3) + 2) div 5 + d - 1 = doy"
    "m \<le> 2 \<longleftrightarrow> 306 \<le> doy"
proof -
  define mp where "mp = (5 * doy + 2) div 153"
  have m: "m = (if mp < 10 then mp + 3 else mp - 9)"
    by (simp add: m_def month_day_def Let_def mp_def)
  have d: "d = doy - (153 * mp + 2) div 5 + 1"
    by (simp add: d_def month_day_def Let_def mp_def)
  have mp: "0 \<le> mp" "mp \<le> 11" using assms(1,2) by (simp_all add: mp_def)
  have lo: "153 * mp \<le> 5 * doy + 2" and hi: "5 * doy + 2 \<le> 153 * mp + 152"
    unfolding mp_def by arith+
  show "1 \<le> m" "m \<le> 12" using mp by (simp_all add: m)
  show "1 \<le> d" "d \<le> 31" using lo hi unfolding d by arith+
  have "(if m \<le> 2 then m + 9 else m - 3) = mp" using mp by (simp add: m)
  then show "(153 * (if m \<le> 2 then m + 9 else m - 3) + 2) div 5 + d - 1 = doy"
    by (simp add: d)
  show "m \<le> 2 \<longleftrightarrow> 306 \<le> doy" using mp lo hi unfolding m by (simp split: if_splits)
qed

lemma civil_from_days_props:
  fixes n :: int
  defines "y \<equiv> fst (civil_from_days n)"
    and "m \<equiv> fst (snd (civil_from_days n))"
    and "d \<equiv> snd (snd (civil_from_days n))"
  shows "1 \<le> m" "m \<le> 12" "1 \<le> d" "d \<le> 31" "days_from_civil y m d = n"
proof -
  define y' where "y' = fst (march_year_day (n + 719468))"
  define doy where "doy = snd (march_year_day (n + 719468))"
  have doy: "0 \<le> doy" "doy \<le> 365"
    and sum: "365 * y' + y' div 4 - y' div 100 + y' div 400 + doy = n + 719468"
    using march_year_day_props [of "n + 719468"] by (simp_all add: y'_def doy_def)
  have m: "m = fst (month_day doy)" and d: "d = snd (month_day doy)"
    and y: "y = (if m \<le> 2 then y' + 1 else y')"
    by (simp_all add: m_def d_def y_def civil_from_days_def Let_def doy_def y'_def)
  show "1 \<le> m" "m \<le> 12" "1 \<le> d" "d \<le> 31"
    using month_day_props(1-4) [OF doy] by (simp_all add: m d)
  define mp where "mp = (if m \<le> 2 then m + 9 else m - 3)"
  have md: "(153 * mp + 2) div 5 + d - 1 = doy"
    using month_day_props(5) [OF doy] by (simp only: m d mp_def)
  have yy: "(if m \<le> 2 then y - 1 else y) = y'" by (simp add: y)
  have "days_from_civil y m d =
      365 * y' + y' div 4 - y' div 100 + y' div 400 + (153 * mp + 2) div 5 + d - 1 - 719468"
    by (simp only: days_from_civil_def Let_def yy mp_def)
  then show "days_from_civil y m d = n"
    using md sum by linarith
qed

lemma civil_from_days_year:
  fixes n :: int
  assumes "0 \<le> n" "n \<le> 2932896"
  shows "1970 \<le> fst (civil_from_days n)" "fst (civil_from_days n) \<le> 9999"
proof -
  define y' where "y' = fst (march_year_day (n + 719468))"
  define doy where "doy = snd (march_year_day (n + 719468))"
  define m where "m = fst (month_day doy)"
  have doy: "0 \<le> doy" "doy \<le> 365"
    and sum: "365 * y' + y' div 4 - y' div 100 + y' div 400 + doy = n + 719468"
    using march_year_day_props [of "n + 719468"] by (simp_all add: y'_def doy_def)
  have y: "fst (civil_from_days n) = (if m \<le> 2 then y' + 1 else y')"
    by (simp add: civil_from_days_def Let_def doy_def y'_def m_def)
  have m: "m \<le> 2 \<longleftrightarrow> 306 \<le> doy"
    using month_day_props(6) [OF doy] by (simp add: m_def)
  have lo: "1969 \<le> y'" using sum doy assms(1) by arith
  have hi: "y' \<le> 9999" using sum doy assms(2) by arith
  have "y' = 1969 \<longrightarrow> 306 \<le> doy" using sum assms(1) by auto
  with lo show "1970 \<le> fst (civil_from_days n)" unfolding y m by auto
  have "y' = 9999 \<longrightarrow> doy \<le> 305" using sum assms(2) by auto
  with hi show "fst (civil_from_days n) \<le> 9999" unfolding y m by auto
qed

lemma ist_fields_props:
  assumes "0 \<le> t" "t < 253402281000000"
  defines "f \<equiv> ist_fields t"
  shows "1970 \<le> dt_year f" "dt_year f \<le> 9999" "1 \<le> dt_month f" "dt_month f \<le> 12"
    "1 \<le> dt_day f" "dt_day f \<le> 31" "0 \<le> dt_hour f" "dt_hour f \<le> 23"
    "0 \<le> dt_minute f" "dt_minute f \<le> 59" "0 \<le> dt_second f" "dt_second f \<le> 59"
    "(days_from_civil (dt_year f) (dt_month f) (dt_day f) * 86400
        + dt_hour f * 3600 + dt_minute f * 60 + dt_second f) * 1000 \<le> t + ist_offset_ms"
    "t + ist_offset_ms < (days_from_civil (dt_year f) (dt_month f) (dt_day f) * 86400
        + dt_hour f * 3600 + dt_minute f * 60 + dt_second f) * 1000 + 1000"
proof -
  define local where "local = t + ist_offset_ms"
  define n where "n = local div 86400000"
  define ms where "ms = local mod 86400000"
  define k where "k = ms div 1000"
  have f: "dt_year f = fst (civil_from_days n)" "dt_month f = fst (snd (civil_from_days n))"
    "dt_day f = snd (snd (civil_from_days n))" "dt_hour f = ms div 3600000"
    "dt_minute f = (ms div 60000) mod 60" "dt_second f = (ms div 1000) mod 60"
    by (simp_all add: f_def ist_fields_def Let_def local_def n_def ms_def)
  have n: "0 \<le> n" "n \<le> 2932896"
    using assms(1,2) by (simp_all add: n_def local_def ist_offset_ms_def)
  have ms: "0 \<le> ms" "ms < 86400000" by (simp_all add: ms_def)
  show "1970 \<le> dt_year f" "dt_year f \<le> 9999"
    using civil_from_days_year [OF n] by (simp_all add: f)
  show "1 \<le> dt_month f" "dt_month f \<le> 12" "1 \<le> dt_day f" "dt_day f \<le> 31"
    using civil_from_days_props(1-4) [of n] by (simp_all add: f)
  show "0 \<le> dt_hour f" "dt_hour f \<le> 23" using ms by (simp_all add: f)
  show "0 \<le> dt_minute f" "dt_minute f \<le> 59" "0 \<le> dt_second f" "dt_second f \<le> 59"
    by (simp_all add: f)
  have days: "days_from_civil (dt_year f) (dt_month f) (dt_day f) = n"
    using civil_from_days_props(5) [of n] by (simp add: f)
  have d60: "ms div 60000 = ms div 1000 div 60"
    using zdiv_zmult2_eq [of 60 ms 1000] by simp
  have d3600: "ms div 3600000 = ms div 1000 div 3600"
    using zdiv_zmult2_eq [of 3600 ms 1000] by simp
  have h: "dt_hour f = k div 3600" and mi: "dt_minute f = (k div 60) mod 60"
    and se: "dt_second f = k mod 60"
    by (simp_all add: f k_def d60 d3600)
  have k: "dt_hour f * 3600 + dt_minute f * 60 + dt_second f = k"
  proof -
    define q where "q = k div 60"
    have 1: "k = q * 60 + k mod 60" by (simp add: q_def)
    have 2: "q = (q div 60) * 60 + q mod 60" by simp
    have 3: "k div 3600 = q div 60"
      using zdiv_zmult2_eq [of 60 k 60] by (simp add: q_def)
    have "(q div 60) * 3600 + (q mod 60) * 60 + k mod 60 = k"
      using 1 2 by linarith
    then show ?thesis unfolding h mi se 3 q_def .
  qed
  have l: "local = n * 86400000 + ms" by (simp add: n_def ms_def)
  have "ms = k * 1000 + ms mod 1000" by (simp add: k_def)
  moreover have "0 \<le> ms mod 1000" "ms mod 1000 < 1000" by simp_all
  ultimately have kms: "k * 1000 \<le> ms" "ms < k * 1000 + 1000" by linarith+
  have e: "(days_from_civil (dt_year f) (dt_month f) (dt_day f) * 86400
        + dt_hour f * 3600 + dt_minute f * 60 + dt_second f) * 1000 = n * 86400000 + k * 1000"
    using k by (simp add: days algebra_simps)
  show "(days_from_civil (dt_year f) (dt_month f) (dt_day f) * 86400
        + dt_hour f * 3600 + dt_minute f * 60 + dt_second f) * 1000 \<le> t + ist_offset_ms"
    unfolding e using l kms by (simp add: local_def)
  show "t + ist_offset_ms < (days_from_civil (dt_year f) (dt_month f) (dt_day f) * 86400
        + dt_hour f * 3600 + dt_minute f * 60 + dt_second f) * 1000 + 1000"
    unfolding e using l kms by (simp add: local_def)
qed


subsection \<open>The shape of the timestamp\<close>

lemma matches_format_append:
  "matches_format p1 s1 \<Longrightarrow> matches_format p2 s2 \<Longrightarrow> matches_format (p1 @ p2) (s1 @ s2)"
  by (simp add: matches_format_def list_all2_appendI)

lemma matches_format_literal:
  "matches_format ''-'' ''-''" "matches_format '':'' '':''" "matches_format '', '' '', ''"
  by (simp_all add: matches_format_def)

lemma show_nat_small: "0 \<le> n \<Longrightarrow> n < 10 \<Longrightarrow> show_nat n = [digit_char n]"
  by (subst show_nat.simps) simp

lemma show_nat_step: "10 \<le> n \<Longrightarrow> show_nat n = show_nat (n div 10) @ [digit_char (n mod 10)]"
  by (subst show_nat.simps) simp

lemma digit_char_0: "digit_char 0 = CHR ''0''"
  by code_simp

lemma pad2_digits:
  assumes "0 \<le> n" "n < 100"
  shows "pad2 n = [digit_char (n div 10), digit_char (n mod 10)]"
proof (cases "n < 10")
  case True
  with assms show ?thesis by (simp add: pad2_def show_nat_small digit_char_0)
next
  case False
  with assms have "0 \<le> n div 10" "n div 10 < 10" by simp_all
  with False show ?thesis by (simp add: pad2_def show_nat_step show_nat_small)
qed

lemma pad2_format:
  assumes "0 \<le> n" "n < 100"
  shows "matches_format ''dd'' (pad2 n)" "list_all is_digit (pad2 n)" "pad2 n \<noteq> []"
proof -
  have "0 \<le> n div 10" "n div 10 \<le> 9" "0 \<le> n mod 10" "n mod 10 \<le> 9"
    using assms by simp_all
  then have d: "is_digit (digit_char (n div 10))" "is_digit (digit_char (n mod 10))"
    by (simp_all add: is_digit_digit_char)
  show "matches_format ''dd'' (pad2 n)" "list_all is_digit (pad2 n)" "pad2 n \<noteq> []"
    using d by (simp_all add: pad2_digits [OF assms] matches_format_def)
qed

lemma year_format:
  assumes "1000 \<le> n" "n \<le> 9999"
  shows "matches_format ''dddd'' (show_nat n)"
proof -
  have a: "10 \<le> n" "10 \<le> n div 10" "10 \<le> n div 10 div 10"
    "0 \<le> n div 10 div 10 div 10" "n div 10 div 10 div 10 < 10"
    using assms by simp_all
  have s: "show_nat n = [digit_char (n div 10 div 10 div 10), digit_char (n div 10 div 10 mod 10),
      digit_char (n div 10 mod 10), digit_char (n mod 10)]"
    by (simp add: show_nat_step [OF a(1)] show_nat_step [OF a(2)] show_nat_step [OF a(3)]
        show_nat_small [OF a(4,5)])
  have "length (show_nat n) = 4" by (simp add: s)
  moreover have "list_all is_digit (show_nat n)" using assms by (simp add: show_nat_digits)
  ultimately show ?thesis
    unfolding matches_format_def by (simp add: s)
qed

lemma takeWhile_digits_then:
  assumes "list_all is_digit a" "rest = [] \<or> \<not> is_digit (hd rest)"
  shows "takeWhile is_digit (a @ rest) = a" "dropWhile is_digit (a @ rest) = rest"
proof -
  have r: "takeWhile is_digit rest = []" "dropWhile is_digit rest = rest"
    using assms(2) by (cases rest; simp)+
  have a: "\<forall>x \<in> set a. is_digit x" using assms(1) by (simp add: list_all_iff)
  show "takeWhile is_digit (a @ rest) = a" "dropWhile is_digit (a @ rest) = rest"
    using a r by (simp_all add: takeWhile_append2 dropWhile_append2)
qed

lemma match_date_at_groups:
  assumes "list_all is_digit a" "a \<noteq> []" "list_all is_digit b" "b \<noteq> []"
    and "list_all is_digit c" "c \<noteq> []" "rest = [] \<or> \<not> is_digit (hd rest)"
  shows "match_date_at (a @ CHR ''/'' # b @ CHR ''/'' # c @ rest) = Some (a, b, c, rest)"
proof -
  have slash: "\<not> is_digit (CHR ''/'')" by (simp add: is_digit_def)
  have 1: "takeWhile is_digit (a @ CHR ''/'' # b @ CHR ''/'' # c @ rest) = a"
    "dropWhile is_digit (a @ CHR ''/'' # b @ CHR ''/'' # c @ rest) = CHR ''/'' # b @ CHR ''/'' # c @ rest"
    using takeWhile_digits_then [OF assms(1), of "CHR ''/'' # b @ CHR ''/'' # c @ rest"] slash
    by simp_all
  have 2: "takeWhile is_digit (b @ CHR ''/'' # c @ rest) = b"
    "dropWhile is_digit (b @ CHR ''/'' # c @ rest) = CHR ''/'' # c @ rest"
    using takeWhile_digits_then [OF assms(3), of "CHR ''/'' # c @ rest"] slash by simp_all
  have 3: "takeWhile is_digit (c @ rest) = c" "dropWhile is_digit (c @ rest) = rest"
    using takeWhile_digits_then [OF assms(5,7)] by simp_all
  show ?thesis
    unfolding match_date_at_def Let_def 1 list.sel 2 3 using assms(2,4,6) by simp
qed

lemma replace_date_match:
  assumes "s \<noteq> []" "match_date_at s = Some (g1, g2, g3, rest)"
  shows "replace_date s = g3 @ ''-'' @ g1 @ ''-'' @ g2 @ rest"
  using assms by (cases s) simp_all


lemma toLocaleString_shape:
  "toLocaleString_enUS hc t =
     pad2 (dt_month (ist_fields t)) @ CHR ''/'' # pad2 (dt_day (ist_fields t)) @ CHR ''/'' #
     show_nat (if 1 \<le> dt_year (ist_fields t) then dt_year (ist_fields t)
               else 1 - dt_year (ist_fields t)) @
     ('', '' @ pad2 (hour_field hc (dt_hour (ist_fields t))) @ '':'' @
      pad2 (dt_minute (ist_fields t)) @ '':'' @ pad2 (dt_second (ist_fields t)))"
  by (simp add: toLocaleString_enUS_def Let_def)

text \<open>
  C2, as the code has it. For every instant from the epoch to the end of the year 9999,
  the timestamp renders the instant in UTC+5:30 as \<open>YYYY-MM-DD, HH:MM:SS\<close>: the date,
  a comma and a space, and the 24-hour time, with no other characters. The six fields
  are in their ranges and name the second the instant falls in, five and a half hours
  ahead of UTC (the hour is written 24 at midnight under the hour cycle \<open>h24\<close>); and
  the timestamp of a created reading is this string at the reading of the clock.
\<close>

theorem timestamp_is_date_comma_time:
  assumes "0 \<le> t" and "t < 253402281000000"
  shows "getISTDateTime hc t =
           show_nat (dt_year (ist_fields t)) @ ''-'' @ pad2 (dt_month (ist_fields t)) @ ''-''
           @ pad2 (dt_day (ist_fields t)) @ '', '' @ pad2 (hour_field hc (dt_hour (ist_fields t)))
           @ '':'' @ pad2 (dt_minute (ist_fields t)) @ '':'' @ pad2 (dt_second (ist_fields t))
       \<and> matches_format ''dddd-dd-dd, dd:dd:dd'' (getISTDateTime hc t)
       \<and> 1970 \<le> dt_year (ist_fields t) \<and> dt_year (ist_fields t) \<le> 9999
       \<and> 1 \<le> dt_month (ist_fields t) \<and> dt_month (ist_fields t) \<le> 12
       \<and> 1 \<le> dt_day (ist_fields t) \<and> dt_day (ist_fields t) \<le> 31
       \<and> 0 \<le> dt_hour (ist_fields t) \<and> dt_hour (ist_fields t) \<le> 23
       \<and> 0 \<le> dt_minute (ist_fields t) \<and> dt_minute (ist_fields t) \<le> 59
       \<and> 0 \<le> dt_second (ist_fields t) \<and> dt_second (ist_fields t) \<le> 59
       \<and> (days_from_civil (dt_year (ist_fields t)) (dt_month (ist_fields t))
              (dt_day (ist_fields t)) * 86400
            + dt_hour (ist_fields t) * 3600 + dt_minute (ist_fields t) * 60
            + dt_second (ist_fields t)) * 1000 \<le> t + ist_offset_ms
       \<and> t + ist_offset_ms
           < (days_from_civil (dt_year (ist_fields t)) (dt_month (ist_fields t))
                (dt_day (ist_fields t)) * 86400
              + dt_hour (ist_fields t) * 3600 + dt_minute (ist_fields t) * 60
              + dt_second (ist_fields t)) * 1000 + 1000
       \<and> (make_entry env body = Inr entry \<longrightarrow>
            timestamp entry = getISTDateTime (clock_hour_cycle env) (clock_date env))"
proof -
  define f where "f = ist_fields t"
  note p = ist_fields_props [OF assms, folded f_def]
  define y where "y = show_nat (dt_year f)"
  define mo where "mo = pad2 (dt_month f)"
  define d where "d = pad2 (dt_day f)"
  define h where "h = pad2 (hour_field hc (dt_hour f))"
  define mi where "mi = pad2 (dt_minute f)"
  define se where "se = pad2 (dt_second f)"
  have hf: "0 \<le> hour_field hc (dt_hour f)" "hour_field hc (dt_hour f) < 100"
    using p(7,8) by (simp_all add: hour_field_def)
  have fy: "matches_format ''dddd'' y" "list_all is_digit y" "y \<noteq> []"
    using p(1,2) by (simp_all add: y_def year_format show_nat_digits show_nat_not_Nil)
  have fmo: "matches_format ''dd'' mo" "list_all is_digit mo" "mo \<noteq> []"
    using p(3,4) by (simp_all add: mo_def pad2_format)
  have fd: "matches_format ''dd'' d" "list_all is_digit d" "d \<noteq> []"
    using p(5,6) by (simp_all add: d_def pad2_format)
  have fh: "matches_format ''dd'' h" using hf by (simp add: h_def pad2_format)
  have fmi: "matches_format ''dd'' mi" using p(9,10) by (simp add: mi_def pad2_format)
  have fse: "matches_format ''dd'' se" using p(11,12) by (simp add: se_def pad2_format)
  define rest where "rest = '', '' @ h @ '':'' @ mi @ '':'' @ se"
  have r: "rest = [] \<or> \<not> is_digit (hd rest)" by (simp add: rest_def is_digit_def)
  have loc: "toLocaleString_enUS hc t = mo @ CHR ''/'' # d @ CHR ''/'' # y @ rest"
    using p(1) unfolding toLocaleString_shape f_def [symmetric]
    by (simp add: mo_def d_def y_def rest_def h_def mi_def se_def)
  have ne: "mo @ CHR ''/'' # d @ CHR ''/'' # y @ rest \<noteq> []" by simp
  have g: "getISTDateTime hc t = y @ ''-'' @ mo @ ''-'' @ d @ rest"
    unfolding getISTDateTime_def loc
    by (rule replace_date_match [OF ne match_date_at_groups [OF fmo(2,3) fd(2,3) fy(2,3) r]])
  have fmt: "matches_format (''dddd'' @ ''-'' @ ''dd'' @ ''-'' @ ''dd'' @ '', '' @ ''dd'' @ '':''
      @ ''dd'' @ '':'' @ ''dd'') (y @ ''-'' @ mo @ ''-'' @ d @ '', '' @ h @ '':'' @ mi @ '':'' @ se)"
    by (intro matches_format_append fy(1) fmo(1) fd(1) fh fmi fse matches_format_literal)
  have "matches_format ''dddd-dd-dd, dd:dd:dd'' (getISTDateTime hc t)"
    using fmt unfolding g rest_def by simp
  moreover have "getISTDateTime hc t =
      y @ ''-'' @ mo @ ''-'' @ d @ '', '' @ h @ '':'' @ mi @ '':'' @ se"
    unfolding g rest_def ..
  ultimately show ?thesis
    unfolding f_def [symmetric] y_def [symmetric] mo_def [symmetric] d_def [symmetric]
      h_def [symmetric] mi_def [symmetric] se_def [symmetric]
    using p make_entry_fields(4) [of env body entry] by blast
qed

theorem timestamp_is_date_comma_time_witness:
  "matches_format ''dddd-dd-dd, dd:dd:dd'' (getISTDateTime H23 1730612345678)
   \<and> dt_year (ist_fields 1730612345678) \<le> 9999
   \<and> timestamp entry_example = getISTDateTime H23 1730612345678"
proof -
  have c: "clock_hour_cycle env_db_up = H23" "clock_date env_db_up = 1730612345678"
    by (simp_all add: env_db_up_def env_db_down_def)
  have t: "(0::int) \<le> 1730612345678" "(1730612345678::int) < 253402281000000" by simp_all
  from timestamp_is_date_comma_time [OF t, of H23 env_db_up body_example entry_example, unfolded c]
    make_entry_example(2)
  show ?thesis by blast
qed

text \<open>
  C2 as stated fails: the comma of the en-US date and time stays in the string, which is
  therefore not of the format \<open>YYYY-MM-DD HH:MM:SS\<close>; and from the year 10000 on the
  year has five digits.
\<close>

lemma stamp_year_10000: "getISTDateTime H23 253402281000000 = ''10000-01-01, 00:00:00''"
  by code_simp

theorem timestamp_format_cex:
  "getISTDateTime H23 1730612345678 = ''2024-11-03, 11:09:05''
   \<and> \<not> spec_timestamp_format (getISTDateTime H23 1730612345678)
   \<and> getISTDateTime H23 253402281000000 = ''10000-01-01, 00:00:00''"
  by (simp add: stamp_example stamp_year_10000 spec_timestamp_format_def matches_format_def)

end
